theory Spec2Isabelle
  imports Main "HOL-Library.AList"
begin

section \<open>Python values and the built-ins the flat-file store calls\<close>

text \<open>
  Project_1 (\<^verbatim>\<open>jogos/database.py\<close>) keeps games, friends and loans in one CSV file each.
  A row read by \<^verbatim>\<open>csv.DictReader\<close> is a Python dict from column names to text; after
  \<^verbatim>\<open>_converter_tipos\<close> some of its values are ints or bools. A dict is an association
  list in insertion order.
\<close>

datatype pyval = PNone | PStr string | PInt int | PBool bool

type_synonym pydict = "(string \<times> pyval) list"

text \<open>
  \<^verbatim>\<open>str(n)\<close> for an int: decimal digits, a leading minus sign for negatives. \<open>str_nat\<close>
  prints a number that is not negative.
\<close>

definition digit_char :: "int \<Rightarrow> char" where
  "digit_char d = char_of (48 + d)"

function str_nat :: "int \<Rightarrow> string" where
  "str_nat n = (if n < 10 then [digit_char n] else str_nat (n div 10) @ [digit_char (n mod 10)])"
  by pat_completeness auto
termination
  by (relation "measure nat") auto

declare str_nat.simps [simp del]

definition py_str_int :: "int \<Rightarrow> string" where
  "py_str_int i = (if i < 0 then CHR ''-'' # str_nat (- i) else str_nat i)"

text \<open>
  \<^verbatim>\<open>int(s)\<close> for a str: surrounding whitespace is stripped, one sign is allowed, then
  decimal digits, where single underscores may stand between digits. Anything else raises
  ValueError (here: \<open>None\<close>).
\<close>

definition is_space :: "char \<Rightarrow> bool" where
  "is_space c \<longleftrightarrow> (of_char c :: int) \<in> {9, 10, 11, 12, 13, 28, 29, 30, 31, 32, 133, 160}"

definition is_digit :: "char \<Rightarrow> bool" where
  "is_digit c \<longleftrightarrow> 48 \<le> (of_char c :: int) \<and> (of_char c :: int) \<le> 57"

definition digit_val :: "char \<Rightarrow> int" where
  "digit_val c = of_char c - 48"

definition py_strip :: "string \<Rightarrow> string" where
  "py_strip s = rev (dropWhile is_space (rev (dropWhile is_space s)))"

fun py_digits :: "bool \<Rightarrow> int \<Rightarrow> string \<Rightarrow> int option" where
  "py_digits after_digit acc [] = (if after_digit then Some acc else None)"
| "py_digits after_digit acc (c # cs) =
     (if is_digit c then py_digits True (10 * acc + digit_val c) cs
      else if c = CHR ''_'' \<and> after_digit then py_digits False acc cs
      else None)"

definition py_int :: "string \<Rightarrow> int option" where
  "py_int s =
     (case py_strip s of
        [] \<Rightarrow> None
      | c # cs \<Rightarrow>
          if c = CHR ''-'' then map_option uminus (py_digits False 0 cs)
          else if c = CHR ''+'' then py_digits False 0 cs
          else py_digits False 0 (c # cs))"

text \<open>\<^verbatim>\<open>str(b)\<close> for a bool, and \<^verbatim>\<open>s.lower()\<close> on the ASCII letters.\<close>

definition py_str_bool :: "bool \<Rightarrow> string" where
  "py_str_bool b = (if b then ''True'' else ''False'')"

definition lower_char :: "char \<Rightarrow> char" where
  "lower_char c =
     (if 65 \<le> (of_char c :: int) \<and> (of_char c :: int) \<le> 90 then char_of (of_char c + 32 :: int) else c)"

definition py_lower :: "string \<Rightarrow> string" where
  "py_lower s = map lower_char s"

text \<open>\<^verbatim>\<open>str(v)\<close> of a value; \<^verbatim>\<open>csv.writer\<close> writes \<^verbatim>\<open>None\<close> as the empty cell.\<close>

fun py_str :: "pyval \<Rightarrow> string" where
  "py_str PNone = ''None''"
| "py_str (PStr s) = s"
| "py_str (PInt i) = py_str_int i"
| "py_str (PBool b) = py_str_bool b"

fun csv_cell :: "pyval \<Rightarrow> string" where
  "csv_cell PNone = []"
| "csv_cell v = py_str v"

section \<open>The models of \<^verbatim>\<open>models.py\<close>\<close>

text \<open>
  The three pydantic models. Field names carry a prefix, since HOL record fields share one
  name space (\<^verbatim>\<open>Jogo.id\<close> is \<open>j_id\<close>, \<^verbatim>\<open>Emprestimo.jogo_id\<close> is \<open>e_jogo_id\<close>).
\<close>

record Jogo =
  j_id :: int
  j_titulo :: string
  j_genero :: string
  j_plataforma :: string
  j_ano_lancamento :: int
  j_disponivel :: bool

record Amigo =
  a_id :: int
  a_nome :: string
  a_telefone :: string
  a_email :: "string option"
  a_data_cadastro :: string

record Emprestimo =
  e_id :: int
  e_jogo_id :: int
  e_amigo_id :: int
  e_data_emprestimo :: string
  e_data_devolucao :: string

text \<open>
  What the models read from outside the program: the year bounding \<^verbatim>\<open>ano_lancamento\<close>
  (\<^verbatim>\<open>datetime.now().year\<close> when \<^verbatim>\<open>models.py\<close> is imported), the date the default
  factories produce, and pydantic's lax coercion of text left in an int or bool field.
\<close>

record env =
  ano_atual :: int
  hoje :: string
  str_as_int :: "string \<Rightarrow> int option"
  str_as_bool :: "string \<Rightarrow> bool option"

text \<open>
  \<^verbatim>\<open>model_validate\<close> field by field; \<open>None\<close> is a ValidationError. An int field takes an
  int (a bool counts as one) or coercible text; a str field takes text only, within its
  \<^verbatim>\<open>max_length\<close>; a bool field takes a bool, the ints 0 and 1, or coercible text. The
  argument is \<^verbatim>\<open>d.get(key)\<close>, \<open>None\<close> when the dict has no such key: a required field is
  then missing.
\<close>

fun campo_int :: "env \<Rightarrow> pyval option \<Rightarrow> int option" where
  "campo_int ev (Some (PInt i)) = Some i"
| "campo_int ev (Some (PBool b)) = Some (if b then 1 else 0)"
| "campo_int ev (Some (PStr s)) = str_as_int ev s"
| "campo_int ev (Some PNone) = None"
| "campo_int ev None = None"

fun campo_str :: "nat option \<Rightarrow> pyval option \<Rightarrow> string option" where
  "campo_str lim (Some (PStr s)) =
     (case lim of None \<Rightarrow> Some s | Some n \<Rightarrow> if length s \<le> n then Some s else None)"
| "campo_str lim _ = None"

fun campo_bool :: "env \<Rightarrow> pyval option \<Rightarrow> bool option" where
  "campo_bool ev (Some (PBool b)) = Some b"
| "campo_bool ev (Some (PInt i)) = (if i = 0 then Some False else if i = 1 then Some True else None)"
| "campo_bool ev (Some (PStr s)) = str_as_bool ev s"
| "campo_bool ev (Some PNone) = None"
| "campo_bool ev None = None"

text \<open>\<^verbatim>\<open>Optional[str]\<close> with default \<^verbatim>\<open>None\<close>: \<^verbatim>\<open>None\<close> is a value of the field.\<close>

fun campo_opt_str :: "nat \<Rightarrow> pyval option \<Rightarrow> string option option" where
  "campo_opt_str lim None = Some None"
| "campo_opt_str lim (Some PNone) = Some None"
| "campo_opt_str lim (Some v) = map_option Some (campo_str (Some lim) (Some v))"

text \<open>A field with a default: the default stands in only when the key is absent.\<close>

fun com_default :: "'a \<Rightarrow> (pyval option \<Rightarrow> 'a option) \<Rightarrow> pyval option \<Rightarrow> 'a option" where
  "com_default dflt campo None = Some dflt"
| "com_default dflt campo (Some v) = campo (Some v)"

definition Jogo_model_validate :: "env \<Rightarrow> pydict \<Rightarrow> Jogo option" where
  "Jogo_model_validate ev d =
     Option.bind (campo_int ev (map_of d ''id'')) (\<lambda>i.
     Option.bind (campo_str (Some 100) (map_of d ''titulo'')) (\<lambda>t.
     Option.bind (campo_str (Some 50) (map_of d ''genero'')) (\<lambda>g.
     Option.bind (campo_str (Some 50) (map_of d ''plataforma'')) (\<lambda>p.
     Option.bind (campo_int ev (map_of d ''ano_lancamento'')) (\<lambda>a.
     Option.bind (com_default True (campo_bool ev) (map_of d ''disponivel'')) (\<lambda>b.
       if 1950 \<le> a \<and> a \<le> ano_atual ev
       then Some \<lparr>j_id = i, j_titulo = t, j_genero = g, j_plataforma = p,
                  j_ano_lancamento = a, j_disponivel = b\<rparr>
       else None))))))"

definition Amigo_model_validate :: "env \<Rightarrow> pydict \<Rightarrow> Amigo option" where
  "Amigo_model_validate ev d =
     Option.bind (campo_int ev (map_of d ''id'')) (\<lambda>i.
     Option.bind (campo_str (Some 100) (map_of d ''nome'')) (\<lambda>n.
     Option.bind (campo_str (Some 20) (map_of d ''telefone'')) (\<lambda>t.
     Option.bind (campo_opt_str 100 (map_of d ''email'')) (\<lambda>em.
     Option.bind (com_default (hoje ev) (campo_str None) (map_of d ''data_cadastro'')) (\<lambda>dc.
       Some \<lparr>a_id = i, a_nome = n, a_telefone = t, a_email = em, a_data_cadastro = dc\<rparr>)))))"

definition Emprestimo_model_validate :: "env \<Rightarrow> pydict \<Rightarrow> Emprestimo option" where
  "Emprestimo_model_validate ev d =
     Option.bind (campo_int ev (map_of d ''id'')) (\<lambda>i.
     Option.bind (campo_int ev (map_of d ''jogo_id'')) (\<lambda>j.
     Option.bind (campo_int ev (map_of d ''amigo_id'')) (\<lambda>a.
     Option.bind (com_default (hoje ev) (campo_str None) (map_of d ''data_emprestimo'')) (\<lambda>de.
     Option.bind (campo_str None (map_of d ''data_devolucao'')) (\<lambda>dd.
       Some \<lparr>e_id = i, e_jogo_id = j, e_amigo_id = a,
             e_data_emprestimo = de, e_data_devolucao = dd\<rparr>)))))"

text \<open>\<^verbatim>\<open>model_dump()\<close>: the fields in declaration order.\<close>

definition Jogo_model_dump :: "Jogo \<Rightarrow> pydict" where
  "Jogo_model_dump j =
     [(''id'', PInt (j_id j)), (''titulo'', PStr (j_titulo j)), (''genero'', PStr (j_genero j)),
      (''plataforma'', PStr (j_plataforma j)), (''ano_lancamento'', PInt (j_ano_lancamento j)),
      (''disponivel'', PBool (j_disponivel j))]"

definition Amigo_model_dump :: "Amigo \<Rightarrow> pydict" where
  "Amigo_model_dump a =
     [(''id'', PInt (a_id a)), (''nome'', PStr (a_nome a)), (''telefone'', PStr (a_telefone a)),
      (''email'', (case a_email a of None \<Rightarrow> PNone | Some e \<Rightarrow> PStr e)),
      (''data_cadastro'', PStr (a_data_cadastro a))]"

definition Emprestimo_model_dump :: "Emprestimo \<Rightarrow> pydict" where
  "Emprestimo_model_dump e =
     [(''id'', PInt (e_id e)), (''jogo_id'', PInt (e_jogo_id e)),
      (''amigo_id'', PInt (e_amigo_id e)), (''data_emprestimo'', PStr (e_data_emprestimo e)),
      (''data_devolucao'', PStr (e_data_devolucao e))]"

text \<open>
  A model class as the generic CRUD functions use it: \<^verbatim>\<open>model_fields.keys()\<close>,
  \<^verbatim>\<open>item.id\<close>, \<^verbatim>\<open>item.model_dump()\<close> and \<^verbatim>\<open>model.model_validate\<close>.
\<close>

record 'a model =
  model_fields :: "string list"
  item_id :: "'a \<Rightarrow> int"
  model_dump :: "'a \<Rightarrow> pydict"
  model_validate :: "env \<Rightarrow> pydict \<Rightarrow> 'a option"

definition Jogo_fields :: "string list" where
  "Jogo_fields = [''id'', ''titulo'', ''genero'', ''plataforma'', ''ano_lancamento'', ''disponivel'']"

definition Amigo_fields :: "string list" where
  "Amigo_fields = [''id'', ''nome'', ''telefone'', ''email'', ''data_cadastro'']"

definition Emprestimo_fields :: "string list" where
  "Emprestimo_fields = [''id'', ''jogo_id'', ''amigo_id'', ''data_emprestimo'', ''data_devolucao'']"

definition Jogo_model :: "Jogo model" where
  "Jogo_model = \<lparr>model_fields = Jogo_fields, item_id = j_id,
                  model_dump = Jogo_model_dump, model_validate = Jogo_model_validate\<rparr>"

definition Amigo_model :: "Amigo model" where
  "Amigo_model = \<lparr>model_fields = Amigo_fields, item_id = a_id,
                   model_dump = Amigo_model_dump, model_validate = Amigo_model_validate\<rparr>"

definition Emprestimo_model :: "Emprestimo model" where
  "Emprestimo_model = \<lparr>model_fields = Emprestimo_fields, item_id = e_id,
                        model_dump = Emprestimo_model_dump,
                        model_validate = Emprestimo_model_validate\<rparr>"

text \<open>
  The constraints a model instance satisfies when pydantic built it from a request, as
  FastAPI does for every body parameter of \<^verbatim>\<open>main.py\<close>.
\<close>

definition Jogo_valido :: "env \<Rightarrow> Jogo \<Rightarrow> bool" where
  "Jogo_valido ev j \<longleftrightarrow>
     length (j_titulo j) \<le> 100 \<and> length (j_genero j) \<le> 50 \<and> length (j_plataforma j) \<le> 50 \<and>
     1950 \<le> j_ano_lancamento j \<and> j_ano_lancamento j \<le> ano_atual ev"

definition Amigo_valido :: "Amigo \<Rightarrow> bool" where
  "Amigo_valido a \<longleftrightarrow>
     length (a_nome a) \<le> 100 \<and> length (a_telefone a) \<le> 20 \<and>
     (case a_email a of None \<Rightarrow> True | Some e \<Rightarrow> length e \<le> 100)"

section \<open>The CSV files and the generic CRUD functions of \<^verbatim>\<open>database.py\<close>\<close>

text \<open>
  One file per entity, \<^verbatim>\<open>data/{entidade}.csv\<close>, which may not exist yet. A file is the list
  of rows \<^verbatim>\<open>csv.DictReader\<close> yields for it (column name and cell text, for rows with as
  many cells as the header); the csv module is taken to store every cell text unchanged.
  \<open>escritas\<close> records which files \<^verbatim>\<open>escrever_csv\<close> has rewritten, in order.
\<close>

datatype entidade = Jogos | Amigos | Emprestimos

type_synonym csv_row = "(string \<times> string) list"

record fs =
  jogos_csv :: "csv_row list option"
  amigos_csv :: "csv_row list option"
  emprestimos_csv :: "csv_row list option"
  escritas :: "entidade list"

fun arquivo :: "entidade \<Rightarrow> fs \<Rightarrow> csv_row list option" where
  "arquivo Jogos s = jogos_csv s"
| "arquivo Amigos s = amigos_csv s"
| "arquivo Emprestimos s = emprestimos_csv s"

fun gravar :: "entidade \<Rightarrow> csv_row list \<Rightarrow> fs \<Rightarrow> fs" where
  "gravar Jogos ls s = s\<lparr>jogos_csv := Some ls\<rparr>"
| "gravar Amigos ls s = s\<lparr>amigos_csv := Some ls\<rparr>"
| "gravar Emprestimos ls s = s\<lparr>emprestimos_csv := Some ls\<rparr>"

text \<open>
  The exceptions of \<^verbatim>\<open>database.py\<close>. The first three are the ValueErrors it raises itself,
  named as the specification names them:
  \<^item> \<open>ReferenceNotFound\<close>: "Jogo com ID .. nao encontrado", "Amigo com ID .. nao encontrado";
  \<^item> \<open>NotAvailable\<close>: "Jogo com ID .. nao esta disponivel";
  \<^item> \<open>DuplicateId\<close>: ".. com ID .. ja existe", "ID .. ja existe na entidade ..".

  The others come from the library: \<^verbatim>\<open>int(text)\<close> on text that is no number (ValueError),
  \<^verbatim>\<open>int(None)\<close> (TypeError), \<^verbatim>\<open>DictWriter\<close> given a dict with a key that is no column
  (ValueError), and \<^verbatim>\<open>next\<close> on an exhausted generator (StopIteration).
\<close>

datatype error =
    ReferenceNotFound entidade int
  | NotAvailable int
  | DuplicateId entidade int
  | InvalidLiteral string
  | IntOfNone
  | ExtraFields
  | StopIteration

text \<open>\<^verbatim>\<open>MODEL_POR_ENTIDADE[entidade].model_fields.keys()\<close>\<close>

fun MODEL_POR_ENTIDADE :: "entidade \<Rightarrow> string list" where
  "MODEL_POR_ENTIDADE Jogos = Jogo_fields"
| "MODEL_POR_ENTIDADE Amigos = Amigo_fields"
| "MODEL_POR_ENTIDADE Emprestimos = Emprestimo_fields"

datatype conversor = ConvInt | ConvBool

definition type_conversions :: "(string \<times> conversor) list" where
  "type_conversions =
     [(''id'', ConvInt), (''jogo_id'', ConvInt), (''amigo_id'', ConvInt),
      (''ano_lancamento'', ConvInt), (''disponivel'', ConvBool)]"

text \<open>
  Applying a converter; \<open>None\<close> is the ValueError that \<^verbatim>\<open>_converter_tipos\<close> catches.
  (\<^verbatim>\<open>int(None)\<close> would be a TypeError, but the guard of \<open>converter_campo\<close> keeps \<^verbatim>\<open>None\<close>
  away from the converters.)
\<close>

fun aplicar :: "conversor \<Rightarrow> pyval \<Rightarrow> pyval option" where
  "aplicar ConvInt (PStr s) = map_option PInt (py_int s)"
| "aplicar ConvInt (PInt i) = Some (PInt i)"
| "aplicar ConvInt (PBool b) = Some (PInt (if b then 1 else 0))"
| "aplicar ConvInt PNone = None"
| "aplicar ConvBool v = Some (PBool (py_lower (py_str v) = ''true''))"

definition converter_campo :: "pydict \<Rightarrow> string \<times> conversor \<Rightarrow> pydict" where
  "converter_campo item fc =
     (case map_of item (fst fc) of
        None \<Rightarrow> item
      | Some v \<Rightarrow>
          if v = PNone \<or> v = PStr [] then item
          else (case aplicar (snd fc) v of
                  None \<Rightarrow> item
                | Some v' \<Rightarrow> AList.update (fst fc) v' item))"

definition converter_tipos :: "pydict \<Rightarrow> pydict" where
  "converter_tipos item = foldl converter_campo item type_conversions"

definition dict_reader :: "csv_row \<Rightarrow> pydict" where
  "dict_reader l = map (\<lambda>kv. (fst kv, PStr (snd kv))) l"

text \<open>
  \<^verbatim>\<open>ler_csv\<close>: a missing file is created with its header and read as no rows.
\<close>

definition ler_csv :: "entidade \<Rightarrow> fs \<Rightarrow> pydict list \<times> fs" where
  "ler_csv ent s =
     (case arquivo ent s of
        None \<Rightarrow> ([], gravar ent [] s)
      | Some ls \<Rightarrow> (map (\<lambda>l. converter_tipos (dict_reader l)) ls, s))"

text \<open>
  \<^verbatim>\<open>escrever_csv\<close>: the file is truncated and the rows are written in order. A dict with a
  key outside \<open>campos\<close> makes \<^verbatim>\<open>DictWriter\<close> raise at that row, with the rows before it
  already written. A column missing from a dict is written as the empty cell.
\<close>

definition sem_extras :: "string list \<Rightarrow> pydict \<Rightarrow> bool" where
  "sem_extras campos d \<longleftrightarrow> list_all (\<lambda>k. k \<in> set campos) (map fst d)"

definition dict_to_list :: "string list \<Rightarrow> pydict \<Rightarrow> csv_row" where
  "dict_to_list campos d =
     map (\<lambda>k. (k, case map_of d k of None \<Rightarrow> [] | Some v \<Rightarrow> csv_cell v)) campos"

definition escrever_csv :: "entidade \<Rightarrow> pydict list \<Rightarrow> string list \<Rightarrow> fs \<Rightarrow> (error + unit) \<times> fs" where
  "escrever_csv ent dados campos s =
     (let escritos = takeWhile (sem_extras campos) dados;
          s' = (gravar ent (map (dict_to_list campos) escritos) s)
                 \<lparr>escritas := escritas s @ [ent]\<rparr>
      in if length escritos = length dados then (Inr (), s') else (Inl ExtraFields, s'))"

text \<open>\<^verbatim>\<open>int(d.get('id'))\<close>\<close>

fun int_of :: "pyval option \<Rightarrow> error + int" where
  "int_of None = Inl IntOfNone"
| "int_of (Some PNone) = Inl IntOfNone"
| "int_of (Some (PInt i)) = Inr i"
| "int_of (Some (PBool b)) = Inr (if b then 1 else 0)"
| "int_of (Some (PStr s)) = (case py_int s of None \<Rightarrow> Inl (InvalidLiteral s) | Some i \<Rightarrow> Inr i)"

text \<open>
  \<^verbatim>\<open>any(int(d.get('id')) == i for d in dados)\<close>: rows are visited in order, the first match
  ends the search, and an id that \<^verbatim>\<open>int\<close> rejects before that raises.
\<close>

fun any_id :: "pydict list \<Rightarrow> int \<Rightarrow> error + bool" where
  "any_id [] i = Inr False"
| "any_id (d # ds) i =
     (case int_of (map_of d ''id'') of
        Inl e \<Rightarrow> Inl e
      | Inr n \<Rightarrow> if n = i then Inr True else any_id ds i)"

definition validar_id_existente :: "entidade \<Rightarrow> int \<Rightarrow> fs \<Rightarrow> (error + bool) \<times> fs" where
  "validar_id_existente ent i s = (let (dados, s1) = ler_csv ent s in (any_id dados i, s1))"

definition carregar_entidades :: "env \<Rightarrow> entidade \<Rightarrow> 'a model \<Rightarrow> fs \<Rightarrow> 'a list \<times> fs" where
  "carregar_entidades ev ent m s =
     (let (dados, s1) = ler_csv ent s in (List.map_filter (model_validate m ev) dados, s1))"

definition criar_entidade :: "entidade \<Rightarrow> 'a model \<Rightarrow> 'a \<Rightarrow> fs \<Rightarrow> (error + 'a) \<times> fs" where
  "criar_entidade ent m item s =
     (let (dados, s1) = ler_csv ent s;
          novo_item = model_dump m item
      in case any_id dados (item_id m item) of
           Inl e \<Rightarrow> (Inl e, s1)
         | Inr True \<Rightarrow> (Inl (DuplicateId ent (item_id m item)), s1)
         | Inr False \<Rightarrow>
             (case escrever_csv ent (dados @ [novo_item]) (model_fields m) s1 of
                (Inl e, s2) \<Rightarrow> (Inl e, s2)
              | (Inr u, s2) \<Rightarrow> (Inr item, s2)))"

text \<open>The loop of \<^verbatim>\<open>atualizar_entidade\<close>: the new list and the flag \<^verbatim>\<open>encontrado\<close>.\<close>

fun substituir :: "pydict list \<Rightarrow> int \<Rightarrow> pydict \<Rightarrow> error + (pydict list \<times> bool)" where
  "substituir [] i novo = Inr ([], False)"
| "substituir (ent # dados) i novo =
     (case int_of (map_of ent ''id'') of
        Inl e \<Rightarrow> Inl e
      | Inr n \<Rightarrow>
          (case substituir dados i novo of
             Inl e \<Rightarrow> Inl e
           | Inr (rest, encontrado) \<Rightarrow>
               if n = i then Inr (novo # rest, True) else Inr (ent # rest, encontrado)))"

definition atualizar_entidade ::
  "entidade \<Rightarrow> 'a model \<Rightarrow> int \<Rightarrow> 'a \<Rightarrow> fs \<Rightarrow> (error + 'a option) \<times> fs" where
  "atualizar_entidade ent m i item s =
     (let (dados, s1) = ler_csv ent s
      in case (if item_id m item \<noteq> i then any_id dados (item_id m item) else Inr False) of
           Inl e \<Rightarrow> (Inl e, s1)
         | Inr True \<Rightarrow> (Inl (DuplicateId ent (item_id m item)), s1)
         | Inr False \<Rightarrow>
             (case substituir dados i (model_dump m item) of
                Inl e \<Rightarrow> (Inl e, s1)
              | Inr (dados_atualizados, encontrado) \<Rightarrow>
                  if \<not> encontrado then (Inr None, s1)
                  else (case escrever_csv ent dados_atualizados (model_fields m) s1 of
                          (Inl e, s2) \<Rightarrow> (Inl e, s2)
                        | (Inr u, s2) \<Rightarrow> (Inr (Some item), s2))))"

text \<open>\<^verbatim>\<open>[d for d in dados if int(d.get('id')) != item_id]\<close>\<close>

fun filtrar :: "pydict list \<Rightarrow> int \<Rightarrow> error + pydict list" where
  "filtrar [] i = Inr []"
| "filtrar (d # dados) i =
     (case int_of (map_of d ''id'') of
        Inl e \<Rightarrow> Inl e
      | Inr n \<Rightarrow>
          (case filtrar dados i of
             Inl e \<Rightarrow> Inl e
           | Inr rest \<Rightarrow> if n \<noteq> i then Inr (d # rest) else Inr rest))"

definition deletar_entidade :: "entidade \<Rightarrow> int \<Rightarrow> fs \<Rightarrow> (error + bool) \<times> fs" where
  "deletar_entidade ent i s =
     (case validar_id_existente ent i s of
        (Inl e, s1) \<Rightarrow> (Inl e, s1)
      | (Inr False, s1) \<Rightarrow> (Inr False, s1)
      | (Inr True, s1) \<Rightarrow>
          (let (dados, s2) = ler_csv ent s1
           in case filtrar dados i of
                Inl e \<Rightarrow> (Inl e, s2)
              | Inr dados_filtrados \<Rightarrow>
                  (case escrever_csv ent dados_filtrados (MODEL_POR_ENTIDADE ent) s2 of
                     (Inl e, s3) \<Rightarrow> (Inl e, s3)
                   | (Inr u, s3) \<Rightarrow> (Inr True, s3))))"

section \<open>Games, friends and loans\<close>

definition carregar_jogos :: "env \<Rightarrow> fs \<Rightarrow> Jogo list \<times> fs" where
  "carregar_jogos ev s = carregar_entidades ev Jogos Jogo_model s"


definition atualizar_jogo :: "int \<Rightarrow> Jogo \<Rightarrow> fs \<Rightarrow> (error + Jogo option) \<times> fs" where
  "atualizar_jogo jogo_id jogo s = atualizar_entidade Jogos Jogo_model jogo_id jogo s"

definition deletar_jogo :: "int \<Rightarrow> fs \<Rightarrow> (error + bool) \<times> fs" where
  "deletar_jogo jogo_id s = deletar_entidade Jogos jogo_id s"

definition carregar_amigos :: "env \<Rightarrow> fs \<Rightarrow> Amigo list \<times> fs" where
  "carregar_amigos ev s = carregar_entidades ev Amigos Amigo_model s"


definition atualizar_amigo :: "int \<Rightarrow> Amigo \<Rightarrow> fs \<Rightarrow> (error + Amigo option) \<times> fs" where
  "atualizar_amigo amigo_id amigo s = atualizar_entidade Amigos Amigo_model amigo_id amigo s"

definition deletar_amigo :: "int \<Rightarrow> fs \<Rightarrow> (error + bool) \<times> fs" where
  "deletar_amigo amigo_id s = deletar_entidade Amigos amigo_id s"

definition carregar_emprestimos :: "env \<Rightarrow> fs \<Rightarrow> Emprestimo list \<times> fs" where
  "carregar_emprestimos ev s = carregar_entidades ev Emprestimos Emprestimo_model s"

text \<open>
  \<^verbatim>\<open>x = next(x for x in xs if p(x)); x.campo = v\<close>: the assignment changes the first match,
  which is the object the list holds.
\<close>

fun atribuir_primeiro :: "('a \<Rightarrow> bool) \<Rightarrow> ('a \<Rightarrow> 'a) \<Rightarrow> 'a list \<Rightarrow> 'a list" where
  "atribuir_primeiro p f [] = []"
| "atribuir_primeiro p f (x # xs) = (if p x then f x # xs else x # atribuir_primeiro p f xs)"

text \<open>
  \<^verbatim>\<open>criar_emprestimo\<close>. The \<^verbatim>\<open>next(...)\<close> without a default raises StopIteration when
  nothing matches, which the \<^verbatim>\<open>any(...)\<close> test before it excludes.
\<close>

definition criar_emprestimo :: "env \<Rightarrow> Emprestimo \<Rightarrow> fs \<Rightarrow> (error + Emprestimo) \<times> fs" where
  "criar_emprestimo ev emprestimo s =
     (let (jogos, s1) = carregar_jogos ev s;
          (amigos, s2) = carregar_amigos ev s1
      in if \<not> list_ex (\<lambda>j. j_id j = e_jogo_id emprestimo) jogos
         then (Inl (ReferenceNotFound Jogos (e_jogo_id emprestimo)), s2)
         else if \<not> list_ex (\<lambda>a. a_id a = e_amigo_id emprestimo) amigos
         then (Inl (ReferenceNotFound Amigos (e_amigo_id emprestimo)), s2)
         else (case find (\<lambda>j. j_id j = e_jogo_id emprestimo) jogos of
                 None \<Rightarrow> (Inl StopIteration, s2)
               | Some jogo \<Rightarrow>
                   if \<not> j_disponivel jogo then (Inl (NotAvailable (e_jogo_id emprestimo)), s2)
                   else
                     (let jogos' = atribuir_primeiro (\<lambda>j. j_id j = e_jogo_id emprestimo)
                                     (\<lambda>j. j\<lparr>j_disponivel := False\<rparr>) jogos;
                          jogos_atualizados = map Jogo_model_dump jogos'
                      in case escrever_csv Jogos jogos_atualizados Jogo_fields s2 of
                           (Inl e, s3) \<Rightarrow> (Inl e, s3)
                         | (Inr u, s3) \<Rightarrow>
                             criar_entidade Emprestimos Emprestimo_model emprestimo s3)))"

text \<open>
  \<^verbatim>\<open>atualizar_emprestimo\<close>. When the game changes, the old game is released and the new one
  reserved in the loaded list; \<open>reservar_novo\<close> is the block that raises when the new game
  is not available, before anything is written.
\<close>

definition reservar_novo :: "int \<Rightarrow> Jogo list \<Rightarrow> error + Jogo list" where
  "reservar_novo novo_id jogos =
     (case find (\<lambda>j. j_id j = novo_id) jogos of
        None \<Rightarrow> Inr jogos
      | Some jogo_novo \<Rightarrow>
          if \<not> j_disponivel jogo_novo then Inl (NotAvailable novo_id)
          else Inr (atribuir_primeiro (\<lambda>j. j_id j = novo_id) (\<lambda>j. j\<lparr>j_disponivel := False\<rparr>) jogos))"

definition atualizar_emprestimo ::
  "env \<Rightarrow> int \<Rightarrow> Emprestimo \<Rightarrow> fs \<Rightarrow> (error + Emprestimo option) \<times> fs" where
  "atualizar_emprestimo ev emprestimo_id emprestimo s =
     (let (emprestimos, s1) = carregar_emprestimos ev s
      in case find (\<lambda>e. e_id e = emprestimo_id) emprestimos of
           None \<Rightarrow> (Inr None, s1)
         | Some emprestimo_antigo \<Rightarrow>
             (let (jogos, s2) = carregar_jogos ev s1
              in if e_jogo_id emprestimo_antigo \<noteq> e_jogo_id emprestimo
                 then
                   (let liberados = atribuir_primeiro (\<lambda>j. j_id j = e_jogo_id emprestimo_antigo)
                                      (\<lambda>j. j\<lparr>j_disponivel := True\<rparr>) jogos
                    in case reservar_novo (e_jogo_id emprestimo) liberados of
                         Inl e \<Rightarrow> (Inl e, s2)
                       | Inr jogos' \<Rightarrow>
                           (case escrever_csv Jogos (map Jogo_model_dump jogos') Jogo_fields s2 of
                              (Inl e, s3) \<Rightarrow> (Inl e, s3)
                            | (Inr u, s3) \<Rightarrow>
                                atualizar_entidade Emprestimos Emprestimo_model
                                  emprestimo_id emprestimo s3))
                 else atualizar_entidade Emprestimos Emprestimo_model
                        emprestimo_id emprestimo s2))"





section \<open>The update endpoint of \<^verbatim>\<open>main.py\<close>\<close>

text \<open>
  \<^verbatim>\<open>PUT /jogos/{jogo_id}\<close>. FastAPI builds the \<^verbatim>\<open>Jogo\<close> from the JSON object of the request
  (here a dict; HTTP 422 when it does not validate), so a field the request leaves out
  takes the default of the model. The endpoint turns \<^verbatim>\<open>None\<close> into HTTP 404 and a
  ValueError into HTTP 400; any other exception is an HTTP 500.
\<close>

fun is_ValueError :: "error \<Rightarrow> bool" where
  "is_ValueError IntOfNone = False"
| "is_ValueError StopIteration = False"
| "is_ValueError e = True"

definition atualizar_jogo_endpoint :: "env \<Rightarrow> int \<Rightarrow> pydict \<Rightarrow> fs \<Rightarrow> (nat + Jogo) \<times> fs" where
  "atualizar_jogo_endpoint ev jogo_id corpo s =
     (case Jogo_model_validate ev corpo of
        None \<Rightarrow> (Inl 422, s)
      | Some jogo \<Rightarrow>
          (case atualizar_jogo jogo_id jogo s of
             (Inr (Some jogo_atualizado), s') \<Rightarrow> (Inr jogo_atualizado, s')
           | (Inr None, s') \<Rightarrow> (Inl 404, s')
           | (Inl e, s') \<Rightarrow> (Inl (if is_ValueError e then 400 else 500), s')))"

section \<open>Files the store itself wrote\<close>

text \<open>
  The CRUD functions call \<^verbatim>\<open>int(d.get('id'))\<close> on every row they pass and write rows back
  through \<^verbatim>\<open>DictWriter\<close>, so they raise on a file with an id cell that is no number or with
  a column the model does not have. Files written by \<^verbatim>\<open>escrever_csv\<close> have neither.
\<close>

definition id_inteiro :: "pydict \<Rightarrow> bool" where
  "id_inteiro d \<longleftrightarrow> (case int_of (map_of d ''id'') of Inl e \<Rightarrow> False | Inr n \<Rightarrow> True)"

definition linhas_ok :: "entidade \<Rightarrow> fs \<Rightarrow> bool" where
  "linhas_ok ent s \<longleftrightarrow>
     list_all (\<lambda>d. id_inteiro d \<and> sem_extras (MODEL_POR_ENTIDADE ent) d) (fst (ler_csv ent s))"


section \<open>The blog: tables, the session and the routers of Project_2\<close>

text \<open>
  Project_2 keeps users, posts, categories and likes in SQL tables behind an ORM session;
  \<^verbatim>\<open>core/database.py\<close> and \<^verbatim>\<open>core/dependencies.py\<close>, which build the session, are not among
  the sources. A table is the list of its rows in insertion order, and the session is
  modelled by what the routers ask of it: \<^verbatim>\<open>session.get\<close> is the row with the primary key,
  \<^verbatim>\<open>.first()\<close> the first row a query matches, and \<^verbatim>\<open>commit\<close> stores the pending rows or
  raises IntegrityError with the text of the engine (SQLite, by \<^verbatim>\<open>core/config.py\<close>).
  Timestamps are numbers; the clock is an argument of the routers that read it.
\<close>

type_synonym datetime = int

record User =
  u_id :: int
  u_username :: string
  u_email :: string
  u_full_name :: "string option"
  u_bio :: "string option"
  u_created_at :: "string option"

record Post =
  p_id :: int
  p_title :: string
  p_content :: string
  p_created_at :: datetime
  p_updated_at :: "datetime option"
  p_author_id :: int

record Category =
  c_id :: int
  c_name :: string
  c_description :: "string option"
  c_created_at :: datetime
  c_updated_at :: "datetime option"

record PostCategoryLink =
  pcl_post_id :: int
  pcl_category_id :: int

record Like =
  l_id :: int
  l_created_at :: datetime
  l_reaction :: string
  l_ip_address :: "string option"
  l_user_id :: int
  l_post_id :: int

record db =
  users :: "User list"
  posts :: "Post list"
  categories :: "Category list"
  post_category_links :: "PostCategoryLink list"
  likes :: "Like list"

text \<open>
  What a router can fail with: the HTTPException it raises (status and detail), or an
  IntegrityError of a commit that it does not catch (its text is the engine's).
\<close>

datatype failure = HTTPException nat string | IntegrityError string

text \<open>
  The request schemas. A field of an update schema is read through
  \<^verbatim>\<open>dict(exclude_unset=True)\<close>: it is either absent from the request, or given, possibly as
  \<^verbatim>\<open>null\<close>.
\<close>

datatype 'a field = NotSet | Given 'a

record UserCreate =
  uc_username :: string
  uc_email :: string
  uc_full_name :: "string option"
  uc_bio :: "string option"

record UserUpdate =
  uu_username :: "string option field"
  uu_email :: "string option field"
  uu_full_name :: "string option field"
  uu_bio :: "string option field"

record PostCreate =
  pc_title :: string
  pc_content :: string
  pc_author_id :: int
  pc_category_ids :: "int list option"

record PostRead =
  pr_id :: int
  pr_title :: string
  pr_content :: string
  pr_created_at :: datetime
  pr_updated_at :: "datetime option"
  pr_author_id :: int
  pr_category_ids :: "int list"

record LikeCreate =
  lc_reaction :: string
  lc_ip_address :: "string option"
  lc_user_id :: int
  lc_post_id :: int

record LikeUpdate =
  lu_reaction :: "string option field"
  lu_ip_address :: "string option field"

text \<open>
  The key of a new row: SQLite gives it the largest key of the table plus one, and 1 in an
  empty table.
\<close>

definition next_id :: "int list \<Rightarrow> int" where
  "next_id ids = foldr max ids 0 + 1"

text \<open>\<^verbatim>\<open>a in b\<close> for two strings.\<close>

fun starts_with :: "string \<Rightarrow> string \<Rightarrow> bool" where
  "starts_with [] s = True"
| "starts_with (a # as) [] = False"
| "starts_with (a # as) (c # cs) = (a = c \<and> starts_with as cs)"

fun py_in :: "string \<Rightarrow> string \<Rightarrow> bool" where
  "py_in a [] = (a = [])"
| "py_in a (c # cs) = (starts_with a (c # cs) \<or> py_in a cs)"

text \<open>
  \<^verbatim>\<open>f"{xs}"\<close> for a list of ints, as in \<^verbatim>\<open>"[3, 7]"\<close>.
\<close>

fun join_ints :: "int list \<Rightarrow> string" where
  "join_ints [] = []"
| "join_ints [i] = py_str_int i"
| "join_ints (i # is) = py_str_int i @ '', '' @ join_ints is"

definition py_str_int_list :: "int list \<Rightarrow> string" where
  "py_str_int_list xs = ''['' @ join_ints xs @ '']''"

subsection \<open>Users\<close>

text \<open>
  Table \<^verbatim>\<open>user\<close> has a unique index on \<^verbatim>\<open>username\<close> and one on \<^verbatim>\<open>email\<close>, and both
  columns are NOT NULL. A row that violates both unique indexes makes SQLite name one of
  them in its error: the one it tests first, which depends on the order in which the
  indexes were created. The sources do not fix that order, so it is a parameter.
\<close>

datatype unique_order = EmailFirst | UsernameFirst

definition unique_violation :: "unique_order \<Rightarrow> User list \<Rightarrow> string \<Rightarrow> string \<Rightarrow> string option" where
  "unique_violation ord others username email =
     (let email_taken = list_ex (\<lambda>u. u_email u = email) others;
          username_taken = list_ex (\<lambda>u. u_username u = username) others;
          email_msg = ''UNIQUE constraint failed: user.email'';
          username_msg = ''UNIQUE constraint failed: user.username''
      in case ord of
           EmailFirst \<Rightarrow>
             if email_taken then Some email_msg
             else if username_taken then Some username_msg else None
         | UsernameFirst \<Rightarrow>
             if username_taken then Some username_msg
             else if email_taken then Some email_msg else None)"

text \<open>\<^verbatim>\<open>session.add(db_user); session.commit()\<close> for a new user: the new table, or the error text.\<close>

definition insert_user :: "unique_order \<Rightarrow> User \<Rightarrow> db \<Rightarrow> string + db" where
  "insert_user ord row s =
     (case unique_violation ord (users s) (u_username row) (u_email row) of
        Some msg \<Rightarrow> Inl msg
      | None \<Rightarrow> Inr (s\<lparr>users := users s @ [row]\<rparr>))"

definition create_user :: "unique_order \<Rightarrow> UserCreate \<Rightarrow> db \<Rightarrow> (failure + User) \<times> db" where
  "create_user ord user s =
     (let db_user = \<lparr>u_id = next_id (map u_id (users s)),
                     u_username = uc_username user, u_email = uc_email user,
                     u_full_name = uc_full_name user, u_bio = uc_bio user,
                     u_created_at = None\<rparr>
      in case insert_user ord db_user s of
           Inr s' \<Rightarrow> (Inr db_user, s')
         | Inl orig \<Rightarrow>
             if py_in ''UNIQUE constraint failed: user.email'' orig
             then (Inl (HTTPException 400 ''Email is already in use.''), s)
             else if py_in ''UNIQUE constraint failed: user.username'' orig
             then (Inl (HTTPException 400 ''Username is already in use.''), s)
             else (Inl (HTTPException 500 ''Internal error creating user.''), s))"

text \<open>
  \<^verbatim>\<open>update_user\<close>: \<^verbatim>\<open>setattr\<close> for every field the request gives (\<open>user_merge\<close>), then the
  commit, an UPDATE of the given columns in the rows with the key. Its IntegrityError (a
  \<^verbatim>\<open>null\<close> in a NOT NULL column, a taken username or e-mail) is not caught.
\<close>

fun merged :: "'a \<Rightarrow> 'a field \<Rightarrow> 'a" where
  "merged old NotSet = old"
| "merged old (Given v) = v"

fun merged_not_null :: "'a \<Rightarrow> 'a option field \<Rightarrow> 'a" where
  "merged_not_null old (Given (Some v)) = v"
| "merged_not_null old f = old"

definition user_merge :: "UserUpdate \<Rightarrow> User \<Rightarrow> User" where
  "user_merge user_update user =
     user\<lparr>u_username := merged_not_null (u_username user) (uu_username user_update),
          u_email := merged_not_null (u_email user) (uu_email user_update),
          u_full_name := merged (u_full_name user) (uu_full_name user_update),
          u_bio := merged (u_bio user) (uu_bio user_update)\<rparr>"

definition update_user :: "unique_order \<Rightarrow> int \<Rightarrow> UserUpdate \<Rightarrow> db \<Rightarrow> (failure + User) \<times> db" where
  "update_user ord user_id user_update s =
     (case find (\<lambda>u. u_id u = user_id) (users s) of
        None \<Rightarrow> (Inl (HTTPException 404 ''User not found''), s)
      | Some user \<Rightarrow>
          if uu_username user_update = Given None
          then (Inl (IntegrityError ''NOT NULL constraint failed: user.username''), s)
          else if uu_email user_update = Given None
          then (Inl (IntegrityError ''NOT NULL constraint failed: user.email''), s)
          else
            (let user' = user_merge user_update user
             in case unique_violation ord (filter (\<lambda>u. u_id u \<noteq> user_id) (users s))
                       (u_username user') (u_email user') of
                  Some msg \<Rightarrow> (Inl (IntegrityError msg), s)
                | None \<Rightarrow>
                    (Inr user',
                     s\<lparr>users := map (\<lambda>u. if u_id u = user_id then user_merge user_update u else u)
                                   (users s)\<rparr>)))"

subsection \<open>Posts\<close>

text \<open>
  \<^verbatim>\<open>sorted(list(set(ids) - found_ids))\<close>: the ids asked for and not found, each once, in
  ascending order.
\<close>

definition missing_ids :: "int list \<Rightarrow> int list \<Rightarrow> int list" where
  "missing_ids ids found_ids = sort (remdups (filter (\<lambda>i. i \<notin> set found_ids) ids))"

text \<open>
  \<^verbatim>\<open>PostRead.from_orm_with_categories\<close>; the categories of a post are those the link table
  joins to it.
\<close>

definition from_orm_with_categories :: "db \<Rightarrow> Post \<Rightarrow> PostRead" where
  "from_orm_with_categories s post =
     \<lparr>pr_id = p_id post, pr_title = p_title post, pr_content = p_content post,
      pr_created_at = p_created_at post, pr_updated_at = p_updated_at post,
      pr_author_id = p_author_id post,
      pr_category_ids =
        map c_id (filter (\<lambda>c. list_ex (\<lambda>l. pcl_post_id l = p_id post \<and> pcl_category_id l = c_id c)
                                 (post_category_links s))
                   (categories s))\<rparr>"

text \<open>
  \<^verbatim>\<open>create_post\<close>. The post is committed first and its links in a second commit; the pair
  (post, category) is the primary key of the link table, so the second commit raises when
  the request names a category twice, with the post already stored.
\<close>

definition create_post :: "datetime \<Rightarrow> PostCreate \<Rightarrow> db \<Rightarrow> (failure + PostRead) \<times> db" where
  "create_post now post s =
     (case pc_category_ids post of
        None \<Rightarrow> (Inl (HTTPException 400 ''At least one category must be provided.''), s)
      | Some category_ids \<Rightarrow>
          if category_ids = []
          then (Inl (HTTPException 400 ''At least one category must be provided.''), s)
          else if find (\<lambda>u. u_id u = pc_author_id post) (users s) = None
          then (Inl (HTTPException 404 ''Author not found''), s)
          else if find (\<lambda>p. p_title p = pc_title post \<and> p_author_id p = pc_author_id post) (posts s)
                    \<noteq> None
          then (Inl (HTTPException 400 ''A post with this title already exists for this author.''), s)
          else
            (let found_ids = map c_id (filter (\<lambda>c. c_id c \<in> set category_ids) (categories s));
                 missing = missing_ids category_ids found_ids
             in if missing \<noteq> []
                then (Inl (HTTPException 404 (''Categories not found: '' @ py_str_int_list missing)), s)
                else
                  (let db_post = \<lparr>p_id = next_id (map p_id (posts s)), p_title = pc_title post,
                                  p_content = pc_content post, p_created_at = now,
                                  p_updated_at = None, p_author_id = pc_author_id post\<rparr>;
                       s1 = s\<lparr>posts := posts s @ [db_post]\<rparr>;
                       new_links = map (\<lambda>c. \<lparr>pcl_post_id = p_id db_post, pcl_category_id = c\<rparr>)
                                     category_ids
                   in if \<not> distinct (post_category_links s1 @ new_links)
                      then (Inl (IntegrityError
                              (''UNIQUE constraint failed: postcategorylink.post_id, '' @
                               ''postcategorylink.category_id'')), s1)
                      else
                        (let s2 = s1\<lparr>post_category_links := post_category_links s1 @ new_links\<rparr>
                         in (Inr (from_orm_with_categories s2 db_post), s2)))))"

subsection \<open>Likes\<close>

definition create_like :: "datetime \<Rightarrow> LikeCreate \<Rightarrow> db \<Rightarrow> (failure + Like) \<times> db" where
  "create_like now like s =
     (if find (\<lambda>u. u_id u = lc_user_id like) (users s) = None
      then (Inl (HTTPException 404 ''User not found''), s)
      else if find (\<lambda>p. p_id p = lc_post_id like) (posts s) = None
      then (Inl (HTTPException 404 ''Post not found''), s)
      else if find (\<lambda>l. l_user_id l = lc_user_id like \<and> l_post_id l = lc_post_id like) (likes s)
                \<noteq> None
      then (Inl (HTTPException 400 ''This like already exists''), s)
      else
        (let db_like = \<lparr>l_id = next_id (map l_id (likes s)), l_created_at = now,
                        l_reaction = lc_reaction like, l_ip_address = lc_ip_address like,
                        l_user_id = lc_user_id like, l_post_id = lc_post_id like\<rparr>
         in (Inr db_like, s\<lparr>likes := likes s @ [db_like]\<rparr>)))"

text \<open>
  \<^verbatim>\<open>update_like\<close>: \<^verbatim>\<open>LikeUpdate\<close> has the fields \<^verbatim>\<open>reaction\<close> and \<^verbatim>\<open>ip_address\<close> only, and
  column \<^verbatim>\<open>reaction\<close> is NOT NULL.
\<close>

definition like_merge :: "LikeUpdate \<Rightarrow> Like \<Rightarrow> Like" where
  "like_merge like_update like =
     like\<lparr>l_reaction := merged_not_null (l_reaction like) (lu_reaction like_update),
          l_ip_address := merged (l_ip_address like) (lu_ip_address like_update)\<rparr>"

definition update_like :: "int \<Rightarrow> LikeUpdate \<Rightarrow> db \<Rightarrow> (failure + Like) \<times> db" where
  "update_like like_id like_update s =
     (case find (\<lambda>l. l_id l = like_id) (likes s) of
        None \<Rightarrow> (Inl (HTTPException 404 ''Like not found''), s)
      | Some like \<Rightarrow>
          if lu_reaction like_update = Given None
          then (Inl (IntegrityError ''NOT NULL constraint failed: like.reaction''), s)
          else (Inr (like_merge like_update like),
                s\<lparr>likes := map (\<lambda>l. if l_id l = like_id then like_merge like_update l else l)
                              (likes s)\<rparr>))"

definition delete_like :: "int \<Rightarrow> db \<Rightarrow> (failure + unit) \<times> db" where
  "delete_like like_id s =
     (case find (\<lambda>l. l_id l = like_id) (likes s) of
        None \<Rightarrow> (Inl (HTTPException 404 ''Like not found''), s)
      | Some like \<Rightarrow> (Inr (), s\<lparr>likes := filter (\<lambda>l. l_id l \<noteq> like_id) (likes s)\<rparr>))"

text \<open>A sequence of requests to the like router, run one after the other.\<close>

datatype like_op =
    CreateLike datetime LikeCreate
  | UpdateLike int LikeUpdate
  | DeleteLike int

fun like_step :: "like_op \<Rightarrow> db \<Rightarrow> db" where
  "like_step (CreateLike now like) s = snd (create_like now like s)"
| "like_step (UpdateLike like_id like_update) s = snd (update_like like_id like_update s)"
| "like_step (DeleteLike like_id) s = snd (delete_like like_id s)"

definition run_likes :: "like_op list \<Rightarrow> db \<Rightarrow> db" where
  "run_likes ops s = fold like_step ops s"

text \<open>No two likes of the store have the same user and post.\<close>

definition likes_unique :: "db \<Rightarrow> bool" where
  "likes_unique s \<longleftrightarrow> distinct (map (\<lambda>l. (l_user_id l, l_post_id l)) (likes s))"

section \<open>A concrete store\<close>

text \<open>
  The store used to run the operations on concrete inputs: game 1 is on the shelf, game 2
  is lent to friend 7 by loan 1, and game 3 is marked unavailable.
\<close>

definition env_exemplo :: env where
  "env_exemplo = \<lparr>ano_atual = 2025, hoje = ''2025-06-01'',
                   str_as_int = py_int, str_as_bool = (\<lambda>s. None)\<rparr>"

definition jogo1 :: Jogo where
  "jogo1 = \<lparr>j_id = 1, j_titulo = ''Zelda'', j_genero = ''RPG'', j_plataforma = ''Switch'',
             j_ano_lancamento = 2017, j_disponivel = True\<rparr>"

definition jogo2 :: Jogo where
  "jogo2 = \<lparr>j_id = 2, j_titulo = ''Doom'', j_genero = ''FPS'', j_plataforma = ''PC'',
             j_ano_lancamento = 1993, j_disponivel = False\<rparr>"

definition jogo3 :: Jogo where
  "jogo3 = \<lparr>j_id = 3, j_titulo = ''Myst'', j_genero = ''Puzzle'', j_plataforma = ''Mac'',
             j_ano_lancamento = 1993, j_disponivel = False\<rparr>"

definition amigo7 :: Amigo where
  "amigo7 = \<lparr>a_id = 7, a_nome = ''Ana'', a_telefone = ''123'', a_email = Some ''ana@x.com'',
              a_data_cadastro = ''2025-01-01''\<rparr>"

definition emprestimo1 :: Emprestimo where
  "emprestimo1 = \<lparr>e_id = 1, e_jogo_id = 2, e_amigo_id = 7,
                   e_data_emprestimo = ''2025-05-01'', e_data_devolucao = ''2025-06-01''\<rparr>"

definition estado_exemplo :: fs where
  "estado_exemplo =
     \<lparr>jogos_csv = Some
        [[(''id'', ''1''), (''titulo'', ''Zelda''), (''genero'', ''RPG''),
          (''plataforma'', ''Switch''), (''ano_lancamento'', ''2017''), (''disponivel'', ''True'')],
         [(''id'', ''2''), (''titulo'', ''Doom''), (''genero'', ''FPS''),
          (''plataforma'', ''PC''), (''ano_lancamento'', ''1993''), (''disponivel'', ''False'')],
         [(''id'', ''3''), (''titulo'', ''Myst''), (''genero'', ''Puzzle''),
          (''plataforma'', ''Mac''), (''ano_lancamento'', ''1993''), (''disponivel'', ''False'')]],
      amigos_csv = Some
        [[(''id'', ''7''), (''nome'', ''Ana''), (''telefone'', ''123''),
          (''email'', ''ana@x.com''), (''data_cadastro'', ''2025-01-01'')]],
      emprestimos_csv = Some
        [[(''id'', ''1''), (''jogo_id'', ''2''), (''amigo_id'', ''7''),
          (''data_emprestimo'', ''2025-05-01''), (''data_devolucao'', ''2025-06-01'')]],
      escritas = []\<rparr>"



text \<open>A blog with one user, one post in two categories, and one like.\<close>

definition db_exemplo :: db where
  "db_exemplo =
     \<lparr>users = [\<lparr>u_id = 1, u_username = ''ana'', u_email = ''ana@x.com'', u_full_name = Some ''Ana A.'',
                 u_bio = None, u_created_at = None\<rparr>],
      posts = [\<lparr>p_id = 1, p_title = ''Hello'', p_content = ''First post'', p_created_at = 100,
                 p_updated_at = None, p_author_id = 1\<rparr>],
      categories = [\<lparr>c_id = 1, c_name = ''news'', c_description = None, c_created_at = 50,
                      c_updated_at = None\<rparr>,
                    \<lparr>c_id = 2, c_name = ''misc'', c_description = None, c_created_at = 60,
                      c_updated_at = None\<rparr>],
      post_category_links = [\<lparr>pcl_post_id = 1, pcl_category_id = 1\<rparr>,
                             \<lparr>pcl_post_id = 1, pcl_category_id = 2\<rparr>],
      likes = [\<lparr>l_id = 1, l_created_at = 110, l_reaction = ''like'', l_ip_address = None,
                 l_user_id = 1, l_post_id = 1\<rparr>]\<rparr>"

section \<open>Printing and parsing: what a cell gives back\<close>

lemma is_digit_digit_char: "0 \<le> d \<Longrightarrow> d < 10 \<Longrightarrow> is_digit (digit_char d)"
  by (simp add: is_digit_def digit_char_def of_char_of take_bit_eq_mod)

lemma digit_val_digit_char: "0 \<le> d \<Longrightarrow> d < 10 \<Longrightarrow> digit_val (digit_char d) = d"
  by (simp add: digit_val_def digit_char_def of_char_of take_bit_eq_mod)

lemma str_nat_small: "n < 10 \<Longrightarrow> str_nat n = [digit_char n]"
  by (subst str_nat.simps) simp

lemma str_nat_large: "\<not> n < 10 \<Longrightarrow> str_nat n = str_nat (n div 10) @ [digit_char (n mod 10)]"
  by (subst str_nat.simps) simp

lemma str_nat_digits: "0 \<le> n \<Longrightarrow> c \<in> set (str_nat n) \<Longrightarrow> is_digit c"
proof (induction n arbitrary: c rule: str_nat.induct)
  case (1 n)
  show ?case
  proof (cases "n < 10")
    case True
    with "1.prems" show ?thesis by (simp add: str_nat_small is_digit_digit_char)
  next
    case False
    with "1.prems" "1.IH" show ?thesis
      by (auto simp: str_nat_large is_digit_digit_char)
  qed
qed

lemma str_nat_nonempty: "str_nat n \<noteq> []"
  by (subst str_nat.simps) simp

lemma py_digits_True_digits:
  "\<forall>c\<in>set xs. is_digit c \<Longrightarrow>
   py_digits True acc xs = Some (foldl (\<lambda>a c. 10 * a + digit_val c) acc xs)"
  by (induction xs arbitrary: acc) simp_all

lemma py_digits_all_digits:
  "xs \<noteq> [] \<Longrightarrow> \<forall>c\<in>set xs. is_digit c \<Longrightarrow>
   py_digits p acc xs = Some (foldl (\<lambda>a c. 10 * a + digit_val c) acc xs)"
  by (cases xs) (simp_all add: py_digits_True_digits)

lemma foldl_str_nat: "0 \<le> n \<Longrightarrow> foldl (\<lambda>a c. 10 * a + digit_val c) 0 (str_nat n) = n"
proof (induction n rule: str_nat.induct)
  case (1 n)
  show ?case
  proof (cases "n < 10")
    case True
    with "1.prems" show ?thesis by (simp add: str_nat_small digit_val_digit_char)
  next
    case False
    with "1.prems" "1.IH" show ?thesis
      by (simp add: str_nat_large digit_val_digit_char)
  qed
qed

lemma py_digits_str_nat: "0 \<le> n \<Longrightarrow> py_digits p 0 (str_nat n) = Some n"
  using py_digits_all_digits [OF str_nat_nonempty, of n p 0] str_nat_digits foldl_str_nat
  by auto

lemma digit_not_space: "is_digit c \<Longrightarrow> \<not> is_space c"
  by (auto simp: is_digit_def is_space_def)

lemma dropWhile_hd: "s \<noteq> [] \<Longrightarrow> \<not> P (hd s) \<Longrightarrow> dropWhile P s = s"
  by (cases s) simp_all

lemma py_strip_id: "s \<noteq> [] \<Longrightarrow> \<not> is_space (hd s) \<Longrightarrow> \<not> is_space (last s) \<Longrightarrow> py_strip s = s"
  by (simp add: py_strip_def dropWhile_hd hd_rev)

lemma str_nat_hd_digit: "0 \<le> n \<Longrightarrow> is_digit (hd (str_nat n))"
  using str_nat_digits [of n "hd (str_nat n)"] str_nat_nonempty [of n] by simp

lemma str_nat_last_digit: "0 \<le> n \<Longrightarrow> is_digit (last (str_nat n))"
  using str_nat_digits [of n "last (str_nat n)"] str_nat_nonempty [of n] by simp

lemma digit_not_sign: "is_digit c \<Longrightarrow> c \<noteq> CHR ''-'' \<and> c \<noteq> CHR ''+''"
  by (auto simp: is_digit_def)

lemma py_int_str_nat: "0 \<le> n \<Longrightarrow> py_int (str_nat n) = Some n"
proof -
  assume n: "0 \<le> n"
  have st: "py_strip (str_nat n) = str_nat n"
    using n by (intro py_strip_id)
      (simp_all add: str_nat_nonempty digit_not_space str_nat_hd_digit str_nat_last_digit)
  obtain c cs where cs: "str_nat n = c # cs"
    using str_nat_nonempty [of n] by (cases "str_nat n") auto
  then have "is_digit c" using str_nat_hd_digit [OF n] by simp
  then have ns: "c \<noteq> CHR ''-''" "c \<noteq> CHR ''+''" using digit_not_sign by auto
  have "py_digits False 0 (c # cs) = Some n"
    using py_digits_str_nat [OF n, of False] cs by simp
  with st cs ns show ?thesis
    by (simp add: py_int_def)
qed

lemma py_int_minus_str_nat: "0 \<le> n \<Longrightarrow> py_int (CHR ''-'' # str_nat n) = Some (- n)"
proof -
  assume n: "0 \<le> n"
  have "\<not> is_space (CHR ''-'')" by (simp add: is_space_def)
  then have st: "py_strip (CHR ''-'' # str_nat n) = CHR ''-'' # str_nat n"
    using py_strip_id [of "CHR ''-'' # str_nat n"] n
    by (simp add: str_nat_nonempty digit_not_space str_nat_last_digit)
  show ?thesis
    using st py_digits_str_nat [OF n, of False] by (simp add: py_int_def)
qed

lemma py_int_py_str_int: "py_int (py_str_int i) = Some i"
  by (simp add: py_str_int_def py_int_str_nat py_int_minus_str_nat)

lemma py_str_int_nonempty: "py_str_int i \<noteq> []"
  by (simp add: py_str_int_def str_nat_nonempty)

lemma py_lower_True: "py_lower ''True'' = ''true''"
  by code_simp

lemma py_lower_False: "py_lower ''False'' = ''false''"
  by code_simp

lemma py_lower_py_str_bool: "(py_lower (py_str_bool b) = ''true'') = b"
  by (cases b) (simp_all add: py_str_bool_def py_lower_True py_lower_False)

lemma py_str_bool_nonempty: "py_str_bool b \<noteq> []"
  by (simp add: py_str_bool_def)

lemma Jogo_dump_reread:
  "converter_tipos (dict_reader (dict_to_list Jogo_fields (Jogo_model_dump j))) = Jogo_model_dump j"
  by (simp add: converter_tipos_def type_conversions_def converter_campo_def dict_reader_def
      dict_to_list_def Jogo_fields_def Jogo_model_dump_def py_int_py_str_int py_str_int_nonempty
      py_lower_py_str_bool py_str_bool_nonempty)



lemma Jogo_validate_dump: "Jogo_valido ev j \<Longrightarrow> Jogo_model_validate ev (Jogo_model_dump j) = Some j"
  by (simp add: Jogo_valido_def Jogo_model_validate_def Jogo_model_dump_def)

lemma campo_str_Some:
  "campo_str lim v = Some s \<Longrightarrow>
   v = Some (PStr s) \<and> (case lim of None \<Rightarrow> True | Some n \<Rightarrow> length s \<le> n)"
  by (cases "(lim, v)" rule: campo_str.cases) (auto split: option.splits if_splits)

lemma Jogo_validate_valido: "Jogo_model_validate ev d = Some j \<Longrightarrow> Jogo_valido ev j"
  by (auto simp: Jogo_valido_def Jogo_model_validate_def bind_eq_Some_conv
      split: if_splits dest!: campo_str_Some)



lemma campo_opt_str_Some:
  "campo_opt_str lim v = Some em \<Longrightarrow> (case em of None \<Rightarrow> True | Some e \<Rightarrow> length e \<le> lim)"
  by (cases "(lim, v)" rule: campo_opt_str.cases) (auto split: option.splits if_splits)

lemma Amigo_validate_valido: "Amigo_model_validate ev d = Some a \<Longrightarrow> Amigo_valido a"
  by (auto simp: Amigo_valido_def Amigo_model_validate_def bind_eq_Some_conv
      dest!: campo_str_Some campo_opt_str_Some split: option.splits)

section \<open>Reading and writing: basic facts\<close>

lemma arquivo_gravar:
  "arquivo ent' (gravar ent ls s) = (if ent' = ent then Some ls else arquivo ent' s)"
  by (cases ent; cases ent') simp_all

lemma escritas_gravar: "escritas (gravar ent ls s) = escritas s"
  by (cases ent) simp_all

lemma fst_ler_csv_ler_csv:
  "fst (ler_csv ent' (snd (ler_csv ent s))) = fst (ler_csv ent' s)"
  by (auto simp: ler_csv_def arquivo_gravar split: option.splits)

lemma arquivo_ler_csv_other:
  "ent' \<noteq> ent \<Longrightarrow> arquivo ent' (snd (ler_csv ent s)) = arquivo ent' s"
  by (auto simp: ler_csv_def arquivo_gravar split: option.splits)

lemma escritas_ler_csv: "escritas (snd (ler_csv ent s)) = escritas s"
  by (auto simp: ler_csv_def escritas_gravar split: option.splits)

lemma snd_carregar: "snd (carregar_entidades ev ent m s) = snd (ler_csv ent s)"
  by (simp add: carregar_entidades_def split_def Let_def)

lemma fst_carregar_after_ler:
  "fst (carregar_entidades ev ent' m (snd (ler_csv ent s))) = fst (carregar_entidades ev ent' m s)"
  using fst_ler_csv_ler_csv [of ent' ent s]
  by (simp add: carregar_entidades_def split_def Let_def)

lemma arquivo_escritas_update: "arquivo ent (s\<lparr>escritas := x\<rparr>) = arquivo ent s"
  by (cases ent) simp_all

lemma ler_csv_Some:
  "arquivo ent s = Some ls \<Longrightarrow> ler_csv ent s = (map (\<lambda>l. converter_tipos (dict_reader l)) ls, s)"
  by (simp add: ler_csv_def)

lemma escrever_csv_ok:
  "list_all (sem_extras campos) dados \<Longrightarrow>
   escrever_csv ent dados campos s =
     (Inr (), (gravar ent (map (dict_to_list campos) dados) s)\<lparr>escritas := escritas s @ [ent]\<rparr>)"
proof -
  assume "list_all (sem_extras campos) dados"
  then have tw: "takeWhile (sem_extras campos) dados = dados"
    by (simp add: list_all_iff)
  show ?thesis
    unfolding escrever_csv_def Let_def tw by simp
qed

lemma sem_extras_Jogo: "sem_extras Jogo_fields (Jogo_model_dump j)"
  by (simp add: sem_extras_def Jogo_fields_def Jogo_model_dump_def)

lemma sem_extras_Amigo: "sem_extras Amigo_fields (Amigo_model_dump a)"
  by (simp add: sem_extras_def Amigo_fields_def Amigo_model_dump_def)


lemma map_filter_map_inverse:
  "\<forall>x\<in>set xs. f (g x) = Some x \<Longrightarrow> List.map_filter f (map g xs) = xs"
  by (induction xs) simp_all

lemma set_map_filter: "set (List.map_filter f xs) = {y. \<exists>x\<in>set xs. f x = Some y}"
  by (induction xs) (auto split: option.splits)

lemma carregar_jogos_validos: "j \<in> set (fst (carregar_jogos ev s)) \<Longrightarrow> Jogo_valido ev j"
  by (auto simp: carregar_jogos_def carregar_entidades_def split_def Let_def set_map_filter
      Jogo_model_def dest: Jogo_validate_valido)

lemma carregar_jogos_escritos:
  assumes "\<forall>j\<in>set js. Jogo_valido ev j"
    and "arquivo Jogos s = Some (map (dict_to_list Jogo_fields) (map Jogo_model_dump js))"
  shows "carregar_jogos ev s = (js, s)"
proof -
  have "List.map_filter (Jogo_model_validate ev)
          (map (\<lambda>j. converter_tipos (dict_reader (dict_to_list Jogo_fields (Jogo_model_dump j)))) js)
        = js"
    using assms(1) by (intro map_filter_map_inverse) (simp add: Jogo_dump_reread Jogo_validate_dump)
  then show ?thesis
    using assms(2)
    by (simp add: carregar_jogos_def carregar_entidades_def ler_csv_Some Jogo_model_def comp_def)
qed

lemma find_atribuir_primeiro:
  "find p xs = Some x \<Longrightarrow> p (f x) \<Longrightarrow> find p (atribuir_primeiro p f xs) = Some (f x)"
  by (induction xs) (auto split: if_splits)

lemma set_atribuir_primeiro: "set (atribuir_primeiro p f xs) \<subseteq> set xs \<union> f ` set xs"
  by (induction xs) auto

lemma atribuir_primeiro_validos:
  assumes "\<forall>j\<in>set js. Jogo_valido ev j"
  shows "\<forall>j\<in>set (atribuir_primeiro p (\<lambda>j. j\<lparr>j_disponivel := b\<rparr>) js). Jogo_valido ev j"
proof -
  have "\<And>j. Jogo_valido ev j \<Longrightarrow> Jogo_valido ev (j\<lparr>j_disponivel := b\<rparr>)"
    by (simp add: Jogo_valido_def)
  with assms show ?thesis
    using set_atribuir_primeiro [of p "\<lambda>j. j\<lparr>j_disponivel := b\<rparr>" js] by auto
qed

lemma jogos_csv_ler_csv_other:
  "ent \<noteq> Jogos \<Longrightarrow> jogos_csv (snd (ler_csv ent s)) = jogos_csv s"
  using arquivo_ler_csv_other [of Jogos ent s] by simp

lemma emprestimos_csv_ler_csv_other:
  "ent \<noteq> Emprestimos \<Longrightarrow> emprestimos_csv (snd (ler_csv ent s)) = emprestimos_csv s"
  using arquivo_ler_csv_other [of Emprestimos ent s] by simp

lemma amigos_csv_ler_csv_other:
  "ent \<noteq> Amigos \<Longrightarrow> amigos_csv (snd (ler_csv ent s)) = amigos_csv s"
  using arquivo_ler_csv_other [of Amigos ent s] by simp

text \<open>The state after the two loads and the rewrite of the games file.\<close>

lemma escrever_jogos_estado:
  "escrever_csv Jogos (map Jogo_model_dump js) Jogo_fields s =
           (Inr (), s\<lparr>jogos_csv := Some (map (dict_to_list Jogo_fields) (map Jogo_model_dump js)),
                      escritas := escritas s @ [Jogos]\<rparr>)"
  by (simp add: escrever_csv_ok list_all_iff sem_extras_Jogo)

lemma carregar_jogos_apos_escrever:
  assumes "\<forall>j\<in>set js. Jogo_valido ev j"
  shows "carregar_jogos ev
           (s\<lparr>jogos_csv := Some (map (dict_to_list Jogo_fields) (map Jogo_model_dump js)),
              escritas := w\<rparr>) =
         (js, s\<lparr>jogos_csv := Some (map (dict_to_list Jogo_fields) (map Jogo_model_dump js)),
              escritas := w\<rparr>)"
  using assms by (intro carregar_jogos_escritos) simp_all

lemma any_id_True_nonempty: "any_id ds i = Inr True \<Longrightarrow> ds \<noteq> []"
  by (cases ds) auto

lemma ler_csv_nonempty: "fst (ler_csv ent s) \<noteq> [] \<Longrightarrow> snd (ler_csv ent s) = s"
  by (auto simp: ler_csv_def split: option.splits)

lemma arquivo_escrever_csv:
  "arquivo ent' (snd (escrever_csv ent dados campos s)) =
     (if ent' = ent then Some (map (dict_to_list campos) (takeWhile (sem_extras campos) dados))
      else arquivo ent' s)"
  by (simp add: escrever_csv_def Let_def arquivo_escritas_update arquivo_gravar)

lemma escritas_escrever_csv:
  "escritas (snd (escrever_csv ent dados campos s)) = escritas s @ [ent]"
  by (simp add: escrever_csv_def Let_def)

lemma atualizar_entidade_outros:
  "ent' \<noteq> ent \<Longrightarrow> arquivo ent' (snd (atualizar_entidade ent m i item s)) = arquivo ent' s"
  by (auto simp: atualizar_entidade_def split_def Let_def arquivo_ler_csv_other
      arquivo_escrever_csv [of ent' ent, simplified]
      split: sum.splits bool.splits prod.splits if_splits
      dest: arg_cong [where f = "\<lambda>p. arquivo ent' (snd p)"])

lemma atualizar_entidade_escritas:
  "escritas (snd (atualizar_entidade ent m i item s)) = escritas s \<or>
   escritas (snd (atualizar_entidade ent m i item s)) = escritas s @ [ent]"
  by (auto simp: atualizar_entidade_def split_def Let_def escritas_ler_csv
      split: sum.splits bool.splits prod.splits if_splits
      dest: arg_cong [where f = "\<lambda>p. escritas (snd p)"] simp: escritas_escrever_csv)

lemma atualizar_entidade_escritas_ok:
  "fst (atualizar_entidade ent m i item s) = Inr (Some x) \<Longrightarrow>
   escritas (snd (atualizar_entidade ent m i item s)) = escritas s @ [ent]"
  by (auto simp: atualizar_entidade_def split_def Let_def escritas_ler_csv
      split: sum.splits bool.splits prod.splits if_splits
      dest: arg_cong [where f = "\<lambda>p. escritas (snd p)"] simp: escritas_escrever_csv)

lemma fst_carregar_cong:
  "arquivo ent s = arquivo ent s' \<Longrightarrow>
   fst (carregar_entidades ev ent m s) = fst (carregar_entidades ev ent m s')"
  by (simp add: carregar_entidades_def ler_csv_def split_def Let_def split: option.splits)

lemma find_atribuir_primeiro_outro:
  "\<forall>x. p x \<longrightarrow> \<not> q x \<Longrightarrow> \<forall>x. q (f x) = q x \<Longrightarrow>
   find q (atribuir_primeiro p f xs) = find q xs"
  by (induction xs) auto

lemma find_atribuir_primeiro_mesmo:
  "\<forall>x. p (f x) = p x \<Longrightarrow> find p (atribuir_primeiro p f xs) = map_option f (find p xs)"
  by (induction xs) auto

lemma find_Some_nonempty: "find p xs = Some x \<Longrightarrow> xs \<noteq> []"
  by (cases xs) auto

lemma carregar_nonempty:
  "fst (carregar_entidades ev ent m s) \<noteq> [] \<Longrightarrow> snd (carregar_entidades ev ent m s) = s"
  by (auto simp: carregar_entidades_def ler_csv_def split_def Let_def split: option.splits)

lemma reservar_novo_indisponivel:
  "find (\<lambda>j. j_id j = n) js = Some novo \<Longrightarrow> \<not> j_disponivel novo \<Longrightarrow>
   reservar_novo n js = Inl (NotAvailable n)"
  by (simp add: reservar_novo_def)

lemma reservar_novo_ok:
  "(case find (\<lambda>j. j_id j = n) js of Some novo \<Rightarrow> j_disponivel novo | None \<Rightarrow> True) \<Longrightarrow>
   reservar_novo n js =
     Inr (atribuir_primeiro (\<lambda>j. j_id j = n) (\<lambda>j. j\<lparr>j_disponivel := False\<rparr>) js)"
proof (induction js)
  case Nil
  then show ?case by (simp add: reservar_novo_def)
next
  case (Cons j js)
  then show ?case
    by (auto simp: reservar_novo_def split: option.splits if_splits)
qed

lemma list_ex_nonempty: "list_ex p xs \<Longrightarrow> xs \<noteq> []"
  by (cases xs) auto

section \<open>Rows: what conversion and rewriting keep\<close>

lemma map_of_dict_reader: "map_of (dict_reader l) k = map_option PStr (map_of l k)"
  by (induction l) (auto simp: dict_reader_def)




lemma map_of_converter_campo_other:
  "k \<noteq> fst fc \<Longrightarrow> map_of (converter_campo item fc) k = map_of item k"
  by (auto simp: converter_campo_def AList.update_conv' split: option.splits)



lemma py_int_Nil: "py_int [] = None"
  by (simp add: py_int_def py_strip_def)

lemma map_of_converter_campo_id:
  "map_of (converter_campo item (''id'', ConvInt)) ''id'' =
     (case map_of item ''id'' of
        Some (PStr t) \<Rightarrow> Some (case py_int t of Some n \<Rightarrow> PInt n | None \<Rightarrow> PStr t)
      | Some (PBool b) \<Rightarrow> Some (PInt (if b then 1 else 0))
      | v \<Rightarrow> v)"
  by (auto simp: converter_campo_def AList.update_conv' py_int_Nil split: option.splits pyval.splits)

lemma map_of_converter_tipos_id:
  "map_of (converter_tipos item) ''id'' =
     (case map_of item ''id'' of
        Some (PStr t) \<Rightarrow> Some (case py_int t of Some n \<Rightarrow> PInt n | None \<Rightarrow> PStr t)
      | Some (PBool b) \<Rightarrow> Some (PInt (if b then 1 else 0))
      | v \<Rightarrow> v)"
  by (simp add: converter_tipos_def type_conversions_def map_of_converter_campo_other
      map_of_converter_campo_id)

text \<open>The id of a row as the CRUD functions see it.\<close>

lemma int_of_lida:
  "int_of (map_of (converter_tipos (dict_reader l)) ''id'') =
     (case map_of l ''id'' of
        None \<Rightarrow> Inl IntOfNone
      | Some t \<Rightarrow> (case py_int t of None \<Rightarrow> Inl (InvalidLiteral t) | Some n \<Rightarrow> Inr n))"
  by (simp add: map_of_converter_tipos_id map_of_dict_reader split: option.splits)



section \<open>The CRUD functions on files the store wrote\<close>

lemma any_id_inteiros:
  "list_all id_inteiro ds \<Longrightarrow>
   any_id ds i = Inr (list_ex (\<lambda>d. int_of (map_of d ''id'') = Inr i) ds)"
  by (induction ds) (auto simp: id_inteiro_def split: sum.splits)


lemma substituir_inteiros:
  "list_all id_inteiro ds \<Longrightarrow>
   substituir ds i novo =
     Inr (map (\<lambda>d. if int_of (map_of d ''id'') = Inr i then novo else d) ds,
          list_ex (\<lambda>d. int_of (map_of d ''id'') = Inr i) ds)"
  by (induction ds) (auto simp: id_inteiro_def split: sum.splits)



lemma id_in_campos: "''id'' \<in> set (MODEL_POR_ENTIDADE ent)"
  by (cases ent) (simp_all add: Jogo_fields_def Amigo_fields_def Emprestimo_fields_def)








lemma campo_int_PInt: "campo_int ev (Some (PInt n)) = Some n"
  by simp





lemma atualizar_entidade_ok:
  assumes ok: "linhas_ok ent s"
    and campos: "model_fields m = MODEL_POR_ENTIDADE ent"
    and dump: "sem_extras (model_fields m) (model_dump m item)"
  shows "atualizar_entidade ent m i item s =
           (if item_id m item \<noteq> i
               \<and> list_ex (\<lambda>d. int_of (map_of d ''id'') = Inr (item_id m item)) (fst (ler_csv ent s))
            then (Inl (DuplicateId ent (item_id m item)), snd (ler_csv ent s))
            else if \<not> list_ex (\<lambda>d. int_of (map_of d ''id'') = Inr i) (fst (ler_csv ent s))
            then (Inr None, snd (ler_csv ent s))
            else (Inr (Some item),
                  (gravar ent
                     (map (dict_to_list (model_fields m))
                        (map (\<lambda>d. if int_of (map_of d ''id'') = Inr i then model_dump m item else d)
                           (fst (ler_csv ent s))))
                     s)\<lparr>escritas := escritas s @ [ent]\<rparr>))"
proof -
  obtain ds s1 where l: "ler_csv ent s = (ds, s1)"
    by (cases "ler_csv ent s")
  have ids: "list_all id_inteiro ds" and cols: "list_all (sem_extras (model_fields m)) ds"
    using ok l campos by (simp_all add: linhas_ok_def list_all_iff)
  note a = any_id_inteiros [OF ids]
  note sub = substituir_inteiros [OF ids, of i "model_dump m item"]
  have c: "list_all (sem_extras (model_fields m))
             (map (\<lambda>d. if int_of (map_of d ''id'') = Inr i then model_dump m item else d) ds)"
    using cols dump by (auto simp: list_all_iff)
  have e: "escritas s1 = escritas s"
    using l escritas_ler_csv [of ent s] by simp
  have s1: "ds \<noteq> [] \<Longrightarrow> s1 = s"
    using l by (auto simp: ler_csv_def split: option.splits)
  show ?thesis
  proof (cases "list_ex (\<lambda>d. int_of (map_of d ''id'') = Inr i) ds")
    case True
    then have "s1 = s" using s1 by (auto dest: list_ex_nonempty)
    with True show ?thesis
      by (simp add: atualizar_entidade_def l a sub escrever_csv_ok [OF c])
  next
    case False
    then show ?thesis
      by (simp add: atualizar_entidade_def l a sub)
  qed
qed

section \<open>Loans: the store after a deletion\<close>









section \<open>Reading back what was created\<close>







section \<open>Likes: one per user and post\<close>

lemma create_like_unique: "likes_unique s \<Longrightarrow> likes_unique (snd (create_like now like s))"
  by (auto simp: create_like_def likes_unique_def Let_def find_None_iff)

lemma update_like_pairs:
  "map (\<lambda>l. (l_user_id l, l_post_id l)) (likes (snd (update_like i upd s)))
     = map (\<lambda>l. (l_user_id l, l_post_id l)) (likes s)"
  by (auto simp: update_like_def like_merge_def comp_def split: option.splits)

lemma update_like_unique: "likes_unique s \<Longrightarrow> likes_unique (snd (update_like i upd s))"
  by (simp add: likes_unique_def update_like_pairs)

lemma delete_like_unique: "likes_unique s \<Longrightarrow> likes_unique (snd (delete_like i s))"
  by (auto simp: delete_like_def likes_unique_def distinct_map_filter split: option.splits)

lemma like_step_unique: "likes_unique s \<Longrightarrow> likes_unique (like_step opr s)"
  by (cases opr) (simp_all add: create_like_unique update_like_unique delete_like_unique)

lemma run_likes_unique: "likes_unique s \<Longrightarrow> likes_unique (run_likes ops s)"
  unfolding run_likes_def by (induction ops arbitrary: s) (simp_all add: like_step_unique)

lemma missing_ids_set: "set (missing_ids ids found) = set ids - set found"
  by (auto simp: missing_ids_def)

lemma missing_ids_sorted: "sorted (missing_ids ids found)"
  by (simp add: missing_ids_def)

lemma missing_ids_distinct: "distinct (missing_ids ids found)"
  by (simp add: missing_ids_def)

lemma missing_ids_eq: "missing_ids ids found = sorted_list_of_set (set ids - set found)"
proof -
  have "missing_ids ids found = sorted_list_of_set (set (filter (\<lambda>i. i \<notin> set found) ids))"
    by (simp only: missing_ids_def sorted_list_of_set_sort_remdups)
  also have "set (filter (\<lambda>i. i \<notin> set found) ids) = set ids - set found"
    by auto
  finally show ?thesis .
qed

lemma missing_ids_found:
  "missing_ids ids (map c_id (filter (\<lambda>c. c_id c \<in> set ids) cs)) = missing_ids ids (map c_id cs)"
proof -
  have "filter (\<lambda>i. i \<notin> set (map c_id (filter (\<lambda>c. c_id c \<in> set ids) cs))) ids
        = filter (\<lambda>i. i \<notin> set (map c_id cs)) ids"
    by (rule filter_cong) auto
  then show ?thesis by (simp add: missing_ids_def)
qed

lemma py_in_email_email:
  "py_in ''UNIQUE constraint failed: user.email'' ''UNIQUE constraint failed: user.email''"
  by code_simp

lemma py_in_email_username:
  "\<not> py_in ''UNIQUE constraint failed: user.email'' ''UNIQUE constraint failed: user.username''"
  by code_simp

lemma py_in_username_username:
  "py_in ''UNIQUE constraint failed: user.username'' ''UNIQUE constraint failed: user.username''"
  by code_simp

section \<open>Lending a game that is not available\<close>

text \<open>
  C1, as stated: whenever the game a new loan refers to exists and has
  \<open>disponivel = False\<close>, \<^verbatim>\<open>criar_emprestimo\<close> fails with \<open>NotAvailable\<close>. It does not when
  the friend of the loan does not exist: game 2 is lent, friend 9 is unknown, and the
  failure is \<open>ReferenceNotFound\<close>, since both references are checked before availability.
\<close>

theorem criar_emprestimo_amigo_desconhecido:
  "find (\<lambda>j. j_id j = 2) (fst (carregar_jogos env_exemplo estado_exemplo)) = Some jogo2
   \<and> j_disponivel jogo2 = False
   \<and> fst (criar_emprestimo env_exemplo
            \<lparr>e_id = 2, e_jogo_id = 2, e_amigo_id = 9,
             e_data_emprestimo = ''2025-06-01'', e_data_devolucao = ''2025-07-01''\<rparr>
            estado_exemplo) = Inl (ReferenceNotFound Amigos 9)
   \<and> Inl (ReferenceNotFound Amigos 9) \<noteq> (Inl (NotAvailable 2) :: error + Emprestimo)"
  by code_simp

text \<open>
  C1, amended: whenever the game a new loan refers to exists and has \<open>disponivel = False\<close>,
  \<^verbatim>\<open>criar_emprestimo\<close> fails, with \<open>NotAvailable\<close> when the friend of the loan exists and with
  \<open>ReferenceNotFound\<close> when it does not; the loans file is left as it was and no file is
  rewritten.
\<close>

theorem criar_emprestimo_jogo_indisponivel:
  assumes "find (\<lambda>j. j_id j = e_jogo_id e) (fst (carregar_jogos ev s)) = Some jogo"
    and "\<not> j_disponivel jogo"
  shows "fst (criar_emprestimo ev e s) =
           (if list_ex (\<lambda>a. a_id a = e_amigo_id e) (fst (carregar_amigos ev s))
            then Inl (NotAvailable (e_jogo_id e))
            else Inl (ReferenceNotFound Amigos (e_amigo_id e)))
         \<and> emprestimos_csv (snd (criar_emprestimo ev e s)) = emprestimos_csv s
         \<and> escritas (snd (criar_emprestimo ev e s)) = escritas s"
proof -
  let ?s1 = "snd (carregar_jogos ev s)"
  have ex: "list_ex (\<lambda>j. j_id j = e_jogo_id e) (fst (carregar_jogos ev s))"
    using assms(1) by (auto simp: find_Some_iff list_ex_iff)
  have am: "fst (carregar_amigos ev ?s1) = fst (carregar_amigos ev s)"
    by (simp add: carregar_amigos_def carregar_jogos_def snd_carregar fst_carregar_after_ler)
  have s2: "snd (carregar_amigos ev ?s1) = snd (ler_csv Amigos (snd (ler_csv Jogos s)))"
    by (simp add: carregar_amigos_def carregar_jogos_def snd_carregar)
  have f: "emprestimos_csv (snd (ler_csv Amigos (snd (ler_csv Jogos s)))) = emprestimos_csv s"
    using arquivo_ler_csv_other [of Emprestimos Amigos "snd (ler_csv Jogos s)"]
      arquivo_ler_csv_other [of Emprestimos Jogos s] by simp
  show ?thesis
    using assms ex am s2 f
    by (simp add: criar_emprestimo_def split_def Let_def escritas_ler_csv)
qed

theorem criar_emprestimo_jogo_indisponivel_witness:
  "find (\<lambda>j. j_id j = 2) (fst (carregar_jogos env_exemplo estado_exemplo)) = Some jogo2
   \<and> j_disponivel jogo2 = False
   \<and> fst (criar_emprestimo env_exemplo
            \<lparr>e_id = 2, e_jogo_id = 2, e_amigo_id = 7,
             e_data_emprestimo = ''2025-06-01'', e_data_devolucao = ''2025-07-01''\<rparr>
            estado_exemplo) = Inl (NotAvailable 2)
   \<and> emprestimos_csv (snd (criar_emprestimo env_exemplo
            \<lparr>e_id = 2, e_jogo_id = 2, e_amigo_id = 7,
             e_data_emprestimo = ''2025-06-01'', e_data_devolucao = ''2025-07-01''\<rparr>
            estado_exemplo)) = emprestimos_csv estado_exemplo"
proof -
  let ?e = "\<lparr>e_id = 2, e_jogo_id = 2, e_amigo_id = 7,
             e_data_emprestimo = ''2025-06-01'', e_data_devolucao = ''2025-07-01''\<rparr>"
  have h1: "find (\<lambda>j. j_id j = e_jogo_id ?e) (fst (carregar_jogos env_exemplo estado_exemplo))
              = Some jogo2"
    by code_simp
  have h2: "\<not> j_disponivel jogo2"
    by (simp add: jogo2_def)
  have h3: "list_ex (\<lambda>a. a_id a = e_amigo_id ?e) (fst (carregar_amigos env_exemplo estado_exemplo))"
    by code_simp
  show ?thesis
    using criar_emprestimo_jogo_indisponivel [OF h1 h2] h1 h2 h3 by simp
qed

section \<open>A loan whose id is already taken\<close>

text \<open>
  C10: when the game and the friend of a new loan exist and the game is available, but a
  stored loan already has the id of the new one, \<^verbatim>\<open>criar_emprestimo\<close> fails with
  \<open>DuplicateId\<close> only after it has rewritten the games file: the one write it made is the
  games file, in which the game is now unavailable, and the loans file is as before, so
  the game is reserved with no new loan.
\<close>

theorem criar_emprestimo_id_duplicado:
  assumes jogo: "find (\<lambda>j. j_id j = e_jogo_id e) (fst (carregar_jogos ev s)) = Some jogo"
    and disp: "j_disponivel jogo"
    and amigo: "list_ex (\<lambda>a. a_id a = e_amigo_id e) (fst (carregar_amigos ev s))"
    and dup: "any_id (fst (ler_csv Emprestimos s)) (e_id e) = Inr True"
  shows "fst (criar_emprestimo ev e s) = Inl (DuplicateId Emprestimos (e_id e))
       \<and> escritas (snd (criar_emprestimo ev e s)) = escritas s @ [Jogos]
       \<and> find (\<lambda>j. j_id j = e_jogo_id e) (fst (carregar_jogos ev (snd (criar_emprestimo ev e s))))
           = Some (jogo\<lparr>j_disponivel := False\<rparr>)
       \<and> emprestimos_csv (snd (criar_emprestimo ev e s)) = emprestimos_csv s"
proof -
  define js where "js = fst (carregar_jogos ev s)"
  define s2 where "s2 = snd (ler_csv Amigos (snd (ler_csv Jogos s)))"
  define js' where "js' = atribuir_primeiro (\<lambda>j. j_id j = e_jogo_id e) (\<lambda>j. j\<lparr>j_disponivel := False\<rparr>) js"
  define s3 where "s3 = s2\<lparr>jogos_csv := Some (map (dict_to_list Jogo_fields) (map Jogo_model_dump js')),
                           escritas := escritas s2 @ [Jogos]\<rparr>"
  have val: "\<forall>j\<in>set js. Jogo_valido ev j"
    by (simp add: js_def carregar_jogos_validos)
  then have val': "\<forall>j\<in>set js'. Jogo_valido ev j"
    unfolding js'_def by (rule atribuir_primeiro_validos)
  have ex: "list_ex (\<lambda>j. j_id j = e_jogo_id e) js"
    using jogo by (auto simp: js_def find_Some_iff list_ex_iff)
  have s1: "snd (carregar_jogos ev s) = snd (ler_csv Jogos s)"
    by (simp add: carregar_jogos_def snd_carregar)
  have am: "fst (carregar_amigos ev (snd (ler_csv Jogos s))) = fst (carregar_amigos ev s)"
    by (simp add: carregar_amigos_def fst_carregar_after_ler)
  have s2': "snd (carregar_amigos ev (snd (ler_csv Jogos s))) = s2"
    by (simp add: s2_def carregar_amigos_def snd_carregar)
  have wr: "escrever_csv Jogos (map Jogo_model_dump js') Jogo_fields s2 = (Inr (), s3)"
    by (simp add: escrever_jogos_estado s3_def)
  have emp2: "emprestimos_csv s2 = emprestimos_csv s"
    by (simp add: s2_def emprestimos_csv_ler_csv_other)
  have esc2: "escritas s2 = escritas s"
    by (simp add: s2_def escritas_ler_csv)
  have ler3: "ler_csv Emprestimos s3 = (fst (ler_csv Emprestimos s), s3)"
  proof -
    have "fst (ler_csv Emprestimos s) \<noteq> []"
      using dup by (rule any_id_True_nonempty)
    then obtain ls where "emprestimos_csv s = Some ls"
      by (auto simp: ler_csv_def split: option.splits)
    then show ?thesis
      by (simp add: ler_csv_def s3_def emp2)
  qed
  have cr: "criar_entidade Emprestimos Emprestimo_model e s3 = (Inl (DuplicateId Emprestimos (e_id e)), s3)"
    using dup by (simp add: criar_entidade_def ler3 Emprestimo_model_def)
  have res: "criar_emprestimo ev e s = (Inl (DuplicateId Emprestimos (e_id e)), s3)"
    using jogo disp amigo ex wr cr
    by (simp add: criar_emprestimo_def split_def Let_def s1 am s2' js_def [symmetric] js'_def [symmetric])
  have cj: "carregar_jogos ev s3 = (js', s3)"
    unfolding s3_def using val' by (rule carregar_jogos_apos_escrever)
  have fj: "find (\<lambda>j. j_id j = e_jogo_id e) js' = Some (jogo\<lparr>j_disponivel := False\<rparr>)"
    unfolding js'_def using jogo
    by (intro find_atribuir_primeiro) (auto simp: js_def find_Some_iff)
  show ?thesis
    by (simp add: res cj fj) (simp add: s3_def emp2 esc2)
qed

theorem criar_emprestimo_id_duplicado_witness:
  "find (\<lambda>j. j_id j = 1) (fst (carregar_jogos env_exemplo estado_exemplo)) = Some jogo1
   \<and> fst (criar_emprestimo env_exemplo (emprestimo1\<lparr>e_jogo_id := 1\<rparr>) estado_exemplo)
       = Inl (DuplicateId Emprestimos 1)
   \<and> escritas (snd (criar_emprestimo env_exemplo (emprestimo1\<lparr>e_jogo_id := 1\<rparr>) estado_exemplo))
       = [Jogos]
   \<and> find (\<lambda>j. j_id j = 1)
        (fst (carregar_jogos env_exemplo
               (snd (criar_emprestimo env_exemplo (emprestimo1\<lparr>e_jogo_id := 1\<rparr>) estado_exemplo))))
       = Some (jogo1\<lparr>j_disponivel := False\<rparr>)
   \<and> emprestimos_csv (snd (criar_emprestimo env_exemplo (emprestimo1\<lparr>e_jogo_id := 1\<rparr>) estado_exemplo))
       = emprestimos_csv estado_exemplo"
proof -
  let ?e = "emprestimo1\<lparr>e_jogo_id := 1\<rparr>"
  have e: "e_jogo_id ?e = 1" "e_id ?e = 1"
    by (simp_all add: emprestimo1_def)
  have h1: "find (\<lambda>j. j_id j = e_jogo_id ?e) (fst (carregar_jogos env_exemplo estado_exemplo))
              = Some jogo1"
    by code_simp
  have h2: "j_disponivel jogo1"
    by (simp add: jogo1_def)
  have h3: "list_ex (\<lambda>a. a_id a = e_amigo_id ?e) (fst (carregar_amigos env_exemplo estado_exemplo))"
    by code_simp
  have h4: "any_id (fst (ler_csv Emprestimos estado_exemplo)) (e_id ?e) = Inr True"
    by code_simp
  have w: "escritas estado_exemplo = []"
    by (simp add: estado_exemplo_def)
  show ?thesis
    using criar_emprestimo_id_duplicado [OF h1 h2 h3 h4] h1 by (simp only: e w append_Nil simp_thms)
qed

section \<open>Moving a loan to another game\<close>

text \<open>
  C3, as stated: when \<^verbatim>\<open>atualizar_emprestimo\<close> changes the game of a loan, the old game's
  \<open>disponivel\<close> is set to true and persisted even on the failure path. It is not: loan 1
  holds game 2, game 3 is unavailable, and moving loan 1 to game 3 fails with
  \<open>NotAvailable\<close> and leaves the whole store as it was, game 2 still unavailable. The old
  game is released in the loaded list only, and the exception is raised before the list is
  written.
\<close>

theorem atualizar_emprestimo_falha_sem_liberar:
  "find (\<lambda>x. e_id x = 1) (fst (carregar_emprestimos env_exemplo estado_exemplo)) = Some emprestimo1
   \<and> e_jogo_id emprestimo1 = 2
   \<and> atualizar_emprestimo env_exemplo 1 (emprestimo1\<lparr>e_jogo_id := 3\<rparr>) estado_exemplo
       = (Inl (NotAvailable 3), estado_exemplo)
   \<and> find (\<lambda>j. j_id j = 2) (fst (carregar_jogos env_exemplo estado_exemplo)) = Some jogo2
   \<and> j_disponivel jogo2 = False"
  by code_simp

text \<open>
  C3, amended: when the new loan names another game than the stored loan (the first loaded
  loan with the id) does, then
  \<^item> if the new game exists and is unavailable, \<^verbatim>\<open>atualizar_emprestimo\<close> fails with
    \<open>NotAvailable\<close> and the store is unchanged: nothing is persisted, the old game keeps
    its stored availability;
  \<^item> otherwise the games file is rewritten first, and the loans file only after it if at
    all; in the games persisted at the end the old game (if it exists) is available and the
    new game (if it exists) is unavailable.
\<close>

theorem atualizar_emprestimo_troca_de_jogo:
  assumes antigo: "find (\<lambda>x. e_id x = i) (fst (carregar_emprestimos ev s)) = Some antigo"
    and troca: "e_jogo_id antigo \<noteq> e_jogo_id e"
  shows "if (case find (\<lambda>j. j_id j = e_jogo_id e) (fst (carregar_jogos ev s)) of
               Some novo \<Rightarrow> \<not> j_disponivel novo | None \<Rightarrow> False)
         then atualizar_emprestimo ev i e s = (Inl (NotAvailable (e_jogo_id e)), s)
         else (escritas (snd (atualizar_emprestimo ev i e s)) = escritas s @ [Jogos]
               \<or> escritas (snd (atualizar_emprestimo ev i e s)) = escritas s @ [Jogos, Emprestimos])
            \<and> find (\<lambda>j. j_id j = e_jogo_id antigo)
                 (fst (carregar_jogos ev (snd (atualizar_emprestimo ev i e s))))
               = map_option (\<lambda>j. j\<lparr>j_disponivel := True\<rparr>)
                   (find (\<lambda>j. j_id j = e_jogo_id antigo) (fst (carregar_jogos ev s)))
            \<and> find (\<lambda>j. j_id j = e_jogo_id e)
                 (fst (carregar_jogos ev (snd (atualizar_emprestimo ev i e s))))
               = map_option (\<lambda>j. j\<lparr>j_disponivel := False\<rparr>)
                   (find (\<lambda>j. j_id j = e_jogo_id e) (fst (carregar_jogos ev s)))"
proof -
  define js where "js = fst (carregar_jogos ev s)"
  define lib where "lib = atribuir_primeiro (\<lambda>j. j_id j = e_jogo_id antigo) (\<lambda>j. j\<lparr>j_disponivel := True\<rparr>) js"
  define fin where "fin = atribuir_primeiro (\<lambda>j. j_id j = e_jogo_id e) (\<lambda>j. j\<lparr>j_disponivel := False\<rparr>) lib"
  have s1: "snd (carregar_emprestimos ev s) = s"
    using antigo unfolding carregar_emprestimos_def
    by (intro carregar_nonempty) (auto dest: find_Some_nonempty)
  have fnovo: "find (\<lambda>j. j_id j = e_jogo_id e) lib = find (\<lambda>j. j_id j = e_jogo_id e) js"
    unfolding lib_def using troca by (intro find_atribuir_primeiro_outro) auto
  show ?thesis
  proof (cases "case find (\<lambda>j. j_id j = e_jogo_id e) js of Some novo \<Rightarrow> \<not> j_disponivel novo | None \<Rightarrow> False")
    case True
    then obtain novo where novo: "find (\<lambda>j. j_id j = e_jogo_id e) js = Some novo" "\<not> j_disponivel novo"
      by (auto split: option.splits)
    have s2: "snd (carregar_jogos ev s) = s"
      using novo(1) unfolding carregar_jogos_def js_def
      by (intro carregar_nonempty) (auto dest: find_Some_nonempty)
    have "reservar_novo (e_jogo_id e) lib = Inl (NotAvailable (e_jogo_id e))"
      using novo fnovo by (intro reservar_novo_indisponivel [of _ _ novo]) simp_all
    then have "atualizar_emprestimo ev i e s = (Inl (NotAvailable (e_jogo_id e)), s)"
      using antigo troca s1 s2
      by (simp add: atualizar_emprestimo_def split_def Let_def js_def [symmetric] lib_def [symmetric])
    with True show ?thesis by (simp add: js_def)
  next
    case False
    define s2 where "s2 = snd (carregar_jogos ev s)"
    define s3 where "s3 = s2\<lparr>jogos_csv := Some (map (dict_to_list Jogo_fields) (map Jogo_model_dump fin)),
                             escritas := escritas s2 @ [Jogos]\<rparr>"
    have esc2: "escritas s2 = escritas s"
      by (simp add: s2_def carregar_jogos_def snd_carregar escritas_ler_csv)
    have "case find (\<lambda>j. j_id j = e_jogo_id e) lib of Some novo \<Rightarrow> j_disponivel novo | None \<Rightarrow> True"
      using False fnovo by (auto split: option.splits)
    then have rn: "reservar_novo (e_jogo_id e) lib = Inr fin"
      unfolding fin_def by (rule reservar_novo_ok)
    have wr: "escrever_csv Jogos (map Jogo_model_dump fin) Jogo_fields s2 = (Inr (), s3)"
      by (simp add: escrever_jogos_estado s3_def)
    have res: "atualizar_emprestimo ev i e s = atualizar_entidade Emprestimos Emprestimo_model i e s3"
      using antigo troca s1 rn wr
      by (simp add: atualizar_emprestimo_def split_def Let_def js_def [symmetric] lib_def [symmetric]
          s2_def [symmetric])
    have val: "\<forall>j\<in>set js. Jogo_valido ev j"
      by (simp add: js_def carregar_jogos_validos)
    then have "\<forall>j\<in>set lib. Jogo_valido ev j"
      unfolding lib_def by (rule atribuir_primeiro_validos)
    then have valf: "\<forall>j\<in>set fin. Jogo_valido ev j"
      unfolding fin_def by (rule atribuir_primeiro_validos)
    have cj3: "carregar_jogos ev s3 = (fin, s3)"
      unfolding s3_def using valf by (rule carregar_jogos_apos_escrever)
    let ?s' = "snd (atualizar_entidade Emprestimos Emprestimo_model i e s3)"
    have "arquivo Jogos ?s' = arquivo Jogos s3"
      by (rule atualizar_entidade_outros) simp
    then have "fst (carregar_jogos ev ?s') = fst (carregar_jogos ev s3)"
      unfolding carregar_jogos_def by (rule fst_carregar_cong)
    then have cj: "fst (carregar_jogos ev ?s') = fin"
      by (simp add: cj3)
    have esc3: "escritas s3 = escritas s @ [Jogos]"
      by (simp add: s3_def esc2)
    have esc: "escritas ?s' = escritas s @ [Jogos] \<or> escritas ?s' = escritas s @ [Jogos, Emprestimos]"
      using atualizar_entidade_escritas [of Emprestimos Emprestimo_model i e s3] esc3 by auto
    have fa: "find (\<lambda>j. j_id j = e_jogo_id antigo) fin
                = map_option (\<lambda>j. j\<lparr>j_disponivel := True\<rparr>) (find (\<lambda>j. j_id j = e_jogo_id antigo) js)"
    proof -
      have "find (\<lambda>j. j_id j = e_jogo_id antigo) fin = find (\<lambda>j. j_id j = e_jogo_id antigo) lib"
        unfolding fin_def using troca by (intro find_atribuir_primeiro_outro) auto
      also have "\<dots> = map_option (\<lambda>j. j\<lparr>j_disponivel := True\<rparr>) (find (\<lambda>j. j_id j = e_jogo_id antigo) js)"
        unfolding lib_def by (intro find_atribuir_primeiro_mesmo) simp
      finally show ?thesis .
    qed
    have fn: "find (\<lambda>j. j_id j = e_jogo_id e) fin
                = map_option (\<lambda>j. j\<lparr>j_disponivel := False\<rparr>) (find (\<lambda>j. j_id j = e_jogo_id e) js)"
    proof -
      have "find (\<lambda>j. j_id j = e_jogo_id e) fin
              = map_option (\<lambda>j. j\<lparr>j_disponivel := False\<rparr>) (find (\<lambda>j. j_id j = e_jogo_id e) lib)"
        unfolding fin_def by (intro find_atribuir_primeiro_mesmo) simp
      then show ?thesis by (simp add: fnovo)
    qed
    from False show ?thesis
      using esc cj fa fn by (simp add: res js_def)
  qed
qed

theorem atualizar_emprestimo_troca_de_jogo_witness:
  "find (\<lambda>x. e_id x = 1) (fst (carregar_emprestimos env_exemplo estado_exemplo)) = Some emprestimo1
   \<and> e_jogo_id emprestimo1 = 2
   \<and> (escritas (snd (atualizar_emprestimo env_exemplo 1 (emprestimo1\<lparr>e_jogo_id := 1\<rparr>) estado_exemplo))
         = [Jogos]
       \<or> escritas (snd (atualizar_emprestimo env_exemplo 1 (emprestimo1\<lparr>e_jogo_id := 1\<rparr>) estado_exemplo))
         = [Jogos, Emprestimos])
   \<and> find (\<lambda>j. j_id j = 2)
        (fst (carregar_jogos env_exemplo
               (snd (atualizar_emprestimo env_exemplo 1 (emprestimo1\<lparr>e_jogo_id := 1\<rparr>) estado_exemplo))))
       = Some (jogo2\<lparr>j_disponivel := True\<rparr>)
   \<and> find (\<lambda>j. j_id j = 1)
        (fst (carregar_jogos env_exemplo
               (snd (atualizar_emprestimo env_exemplo 1 (emprestimo1\<lparr>e_jogo_id := 1\<rparr>) estado_exemplo))))
       = Some (jogo1\<lparr>j_disponivel := False\<rparr>)"
proof -
  let ?e = "emprestimo1\<lparr>e_jogo_id := 1\<rparr>"
  have e: "e_jogo_id ?e = 1" "e_jogo_id emprestimo1 = 2"
    by (simp_all add: emprestimo1_def)
  have h1: "find (\<lambda>x. e_id x = 1) (fst (carregar_emprestimos env_exemplo estado_exemplo))
              = Some emprestimo1"
    by code_simp
  have h2: "e_jogo_id emprestimo1 \<noteq> e_jogo_id ?e"
    by (simp add: emprestimo1_def)
  have j1: "find (\<lambda>j. j_id j = 1) (fst (carregar_jogos env_exemplo estado_exemplo)) = Some jogo1"
    by code_simp
  have j2: "find (\<lambda>j. j_id j = 2) (fst (carregar_jogos env_exemplo estado_exemplo)) = Some jogo2"
    by code_simp
  have d1: "j_disponivel jogo1"
    by (simp add: jogo1_def)
  have w: "escritas estado_exemplo = []"
    by (simp add: estado_exemplo_def)
  show ?thesis
    using atualizar_emprestimo_troca_de_jogo [OF h1 h2] h1 by (simp add: e j1 j2 d1 w)
qed

section \<open>Returning a game\<close>



section \<open>Updating a record, its id included\<close>

text \<open>
  C4, as stated: \<^verbatim>\<open>atualizar_entidade\<close> returns \<^verbatim>\<open>None\<close> whenever the id is absent. It does not
  when the record carries an id that is in use: no game has id 9, game 1 exists, and
  updating id 9 with a record whose id is 1 fails with \<open>DuplicateId\<close>, because the
  collision test comes before the search for the id.
\<close>

theorem atualizar_entidade_ausente_com_colisao:
  "list_ex (\<lambda>d. int_of (map_of d ''id'') = Inr 9) (fst (ler_csv Jogos estado_exemplo)) = False
   \<and> fst (atualizar_jogo 9 jogo1 estado_exemplo) = Inl (DuplicateId Jogos 1)
   \<and> Inl (DuplicateId Jogos 1) \<noteq> (Inr None :: error + Jogo option)"
  by code_simp

text \<open>
  C4, amended: on a file the store wrote, \<^verbatim>\<open>atualizar_entidade\<close> with id \<open>i\<close> and a record
  \<open>item\<close>
  \<^item> fails with \<open>DuplicateId\<close>, writing nothing, exactly when the id of \<open>item\<close> differs from
    \<open>i\<close> and some stored row already has it (such a row is not one stored under \<open>i\<close>),
    whether or not \<open>i\<close> itself is present;
  \<^item> otherwise returns \<^verbatim>\<open>None\<close>, writing nothing, when no row has id \<open>i\<close>;
  \<^item> otherwise replaces every row with id \<open>i\<close> by \<open>item\<close>, rewrites the file and returns
    \<open>item\<close>.
\<close>

theorem atualizar_entidade_casos:
  assumes ok: "linhas_ok ent s"
    and campos: "model_fields m = MODEL_POR_ENTIDADE ent"
    and dump: "sem_extras (model_fields m) (model_dump m item)"
  shows "atualizar_entidade ent m i item s =
           (if item_id m item \<noteq> i
               \<and> list_ex (\<lambda>d. int_of (map_of d ''id'') = Inr (item_id m item)) (fst (ler_csv ent s))
            then (Inl (DuplicateId ent (item_id m item)), snd (ler_csv ent s))
            else if \<not> list_ex (\<lambda>d. int_of (map_of d ''id'') = Inr i) (fst (ler_csv ent s))
            then (Inr None, snd (ler_csv ent s))
            else (Inr (Some item),
                  (gravar ent
                     (map (dict_to_list (model_fields m))
                        (map (\<lambda>d. if int_of (map_of d ''id'') = Inr i then model_dump m item else d)
                           (fst (ler_csv ent s))))
                     s)\<lparr>escritas := escritas s @ [ent]\<rparr>))"
  using ok campos dump by (rule atualizar_entidade_ok)

theorem atualizar_entidade_casos_witness:
  "linhas_ok Jogos estado_exemplo
   \<and> fst (atualizar_entidade Jogos Jogo_model 2 (jogo2\<lparr>j_id := 5\<rparr>) estado_exemplo)
       = Inr (Some (jogo2\<lparr>j_id := 5\<rparr>))"
proof -
  let ?item = "jogo2\<lparr>j_id := 5\<rparr>"
  have h1: "linhas_ok Jogos estado_exemplo"
    by code_simp
  have h2: "model_fields Jogo_model = MODEL_POR_ENTIDADE Jogos"
    by (simp add: Jogo_model_def)
  have h3: "sem_extras (model_fields Jogo_model) (model_dump Jogo_model ?item)"
    by (simp add: Jogo_model_def sem_extras_Jogo)
  have u5: "\<not> list_ex (\<lambda>d. int_of (map_of d ''id'') = Inr (item_id Jogo_model ?item))
                (fst (ler_csv Jogos estado_exemplo))"
    by code_simp
  have u2: "list_ex (\<lambda>d. int_of (map_of d ''id'') = Inr 2) (fst (ler_csv Jogos estado_exemplo))"
    by code_simp
  show ?thesis
    using atualizar_entidade_casos [OF h1 h2 h3, of 2] h1 u5 u2 by simp
qed

section \<open>Create, then get by id\<close>




section \<open>Creating a like\<close>

text \<open>
  C8: \<^verbatim>\<open>create_like\<close> fails with HTTP 404 when the user of the like does not exist, and when
  the user exists but the post does not; when both exist and a like with the same user and
  post is stored, it fails with HTTP 400; each time the store is unchanged. Consequently a
  store in which no two likes have the same user and post stays so under every sequence of
  requests to the like router (create, update, delete).
\<close>

theorem create_like_rejects:
  "(find (\<lambda>u. u_id u = lc_user_id like) (users s) = None \<longrightarrow>
      create_like now like s = (Inl (HTTPException 404 ''User not found''), s))
   \<and> (find (\<lambda>u. u_id u = lc_user_id like) (users s) \<noteq> None
      \<and> find (\<lambda>p. p_id p = lc_post_id like) (posts s) = None \<longrightarrow>
      create_like now like s = (Inl (HTTPException 404 ''Post not found''), s))
   \<and> (find (\<lambda>u. u_id u = lc_user_id like) (users s) \<noteq> None
      \<and> find (\<lambda>p. p_id p = lc_post_id like) (posts s) \<noteq> None
      \<and> list_ex (\<lambda>l. l_user_id l = lc_user_id like \<and> l_post_id l = lc_post_id like) (likes s) \<longrightarrow>
      create_like now like s = (Inl (HTTPException 400 ''This like already exists''), s))
   \<and> (likes_unique s \<longrightarrow> likes_unique (run_likes ops s))"
  by (auto simp: create_like_def run_likes_unique find_None_iff list_ex_iff)

theorem create_like_rejects_witness:
  "create_like 120 \<lparr>lc_reaction = ''like'', lc_ip_address = None, lc_user_id = 9, lc_post_id = 1\<rparr>
       db_exemplo = (Inl (HTTPException 404 ''User not found''), db_exemplo)
   \<and> create_like 120 \<lparr>lc_reaction = ''like'', lc_ip_address = None, lc_user_id = 1, lc_post_id = 9\<rparr>
       db_exemplo = (Inl (HTTPException 404 ''Post not found''), db_exemplo)
   \<and> create_like 120 \<lparr>lc_reaction = ''like'', lc_ip_address = None, lc_user_id = 1, lc_post_id = 1\<rparr>
       db_exemplo = (Inl (HTTPException 400 ''This like already exists''), db_exemplo)
   \<and> likes_unique
        (run_likes
           [CreateLike 120 \<lparr>lc_reaction = ''like'', lc_ip_address = None, lc_user_id = 1, lc_post_id = 1\<rparr>,
            UpdateLike 1 \<lparr>lu_reaction = Given (Some ''love''), lu_ip_address = NotSet\<rparr>,
            DeleteLike 1,
            CreateLike 130 \<lparr>lc_reaction = ''like'', lc_ip_address = None, lc_user_id = 1, lc_post_id = 1\<rparr>]
           db_exemplo)"
proof -
  let ?a = "\<lparr>lc_reaction = ''like'', lc_ip_address = None, lc_user_id = 9, lc_post_id = 1\<rparr>"
  let ?b = "\<lparr>lc_reaction = ''like'', lc_ip_address = None, lc_user_id = 1, lc_post_id = 9\<rparr>"
  let ?c = "\<lparr>lc_reaction = ''like'', lc_ip_address = None, lc_user_id = 1, lc_post_id = 1\<rparr>"
  have u9: "find (\<lambda>u. u_id u = lc_user_id ?a) (users db_exemplo) = None"
    by (simp add: db_exemplo_def)
  have u1: "find (\<lambda>u. u_id u = lc_user_id ?b) (users db_exemplo) \<noteq> None"
    "find (\<lambda>u. u_id u = lc_user_id ?c) (users db_exemplo) \<noteq> None"
    by (simp_all add: db_exemplo_def)
  have p9: "find (\<lambda>p. p_id p = lc_post_id ?b) (posts db_exemplo) = None"
    by (simp add: db_exemplo_def)
  have p1: "find (\<lambda>p. p_id p = lc_post_id ?c) (posts db_exemplo) \<noteq> None"
    by (simp add: db_exemplo_def)
  have l1: "list_ex (\<lambda>l. l_user_id l = lc_user_id ?c \<and> l_post_id l = lc_post_id ?c) (likes db_exemplo)"
    by (simp add: db_exemplo_def)
  have un: "likes_unique db_exemplo"
    by (simp add: likes_unique_def db_exemplo_def)
  show ?thesis
    using create_like_rejects [where like = ?a and s = db_exemplo and now = 120]
      create_like_rejects [where like = ?b and s = db_exemplo and now = 120]
      create_like_rejects [where like = ?c and s = db_exemplo and now = 120, of
        "[CreateLike 120 ?c, UpdateLike 1 \<lparr>lu_reaction = Given (Some ''love''), lu_ip_address = NotSet\<rparr>,
          DeleteLike 1, CreateLike 130 ?c]"]
      u9 u1 p9 p1 l1 un
    by blast
qed

section \<open>Creating a post in categories that do not exist\<close>

text \<open>
  C7, as stated: whenever a category id of the request resolves to no category,
  \<^verbatim>\<open>create_post\<close> fails and the failure reports exactly the missing ids. It does not when the
  author of the request is unknown: category 99 does not exist, user 9 does not either, and
  the failure is "Author not found", since the author and the title are checked before
  the categories.
\<close>

theorem create_post_unknown_author:
  "pc_category_ids \<lparr>pc_title = ''New'', pc_content = ''Text'', pc_author_id = 9,
                     pc_category_ids = Some [1, 99]\<rparr> = Some [1, 99]
   \<and> missing_ids [1, 99] (map c_id (categories db_exemplo)) = [99]
   \<and> create_post 200 \<lparr>pc_title = ''New'', pc_content = ''Text'', pc_author_id = 9,
                        pc_category_ids = Some [1, 99]\<rparr> db_exemplo
       = (Inl (HTTPException 404 ''Author not found''), db_exemplo)
   \<and> ''Author not found'' \<noteq> ''Categories not found: '' @ py_str_int_list [99]"
  by code_simp

text \<open>
  C7, amended: whenever a category id of the request resolves to no category,
  \<^verbatim>\<open>create_post\<close> fails and leaves the store as it was (no post row, no link row). The
  failure is "Author not found" when the author does not exist, the duplicate-title
  failure when the author already has a post with the title, and otherwise HTTP 404 with
  exactly the missing ids, each once and in ascending order.
\<close>

theorem create_post_missing_categories:
  assumes ids: "pc_category_ids post = Some ids"
    and miss: "\<not> set ids \<subseteq> c_id ` set (categories s)"
  shows "isl (fst (create_post now post s))
       \<and> snd (create_post now post s) = s
       \<and> (if find (\<lambda>u. u_id u = pc_author_id post) (users s) = None
          then fst (create_post now post s) = Inl (HTTPException 404 ''Author not found'')
          else if find (\<lambda>p. p_title p = pc_title post \<and> p_author_id p = pc_author_id post) (posts s)
                    \<noteq> None
          then fst (create_post now post s)
                 = Inl (HTTPException 400 ''A post with this title already exists for this author.'')
          else fst (create_post now post s)
                 = Inl (HTTPException 404
                          (''Categories not found: '' @
                           py_str_int_list (sorted_list_of_set (set ids - c_id ` set (categories s))))))"
proof -
  have ne: "ids \<noteq> []" using miss by auto
  have m: "missing_ids ids (map c_id (filter (\<lambda>c. c_id c \<in> set ids) (categories s)))
             = sorted_list_of_set (set ids - c_id ` set (categories s))"
    by (simp only: missing_ids_found) (simp add: missing_ids_eq)
  have "set ids - c_id ` set (categories s) \<noteq> {}" using miss by auto
  then have mne: "sorted_list_of_set (set ids - c_id ` set (categories s)) \<noteq> []"
    by (simp add: sorted_list_of_set_eq_Nil_iff)
  show ?thesis
    using ids ne by (simp add: create_post_def Let_def m mne)
qed

theorem create_post_missing_categories_witness:
  "create_post 200 \<lparr>pc_title = ''New'', pc_content = ''Text'', pc_author_id = 1,
                     pc_category_ids = Some [1, 99, 7]\<rparr> db_exemplo
     = (Inl (HTTPException 404 ''Categories not found: [7, 99]''), db_exemplo)"
proof -
  let ?p = "\<lparr>pc_title = ''New'', pc_content = ''Text'', pc_author_id = 1,
              pc_category_ids = Some [1, 99, 7]\<rparr>"
  have h1: "pc_category_ids ?p = Some [1, 99, 7]"
    by simp
  have h2: "\<not> set [1, 99, 7] \<subseteq> c_id ` set (categories db_exemplo)"
    by (simp add: db_exemplo_def)
  have a: "find (\<lambda>u. u_id u = pc_author_id ?p) (users db_exemplo) \<noteq> None"
    by (simp add: db_exemplo_def)
  have t: "find (\<lambda>p. p_title p = pc_title ?p \<and> p_author_id p = pc_author_id ?p) (posts db_exemplo)
             = None"
    by (simp add: db_exemplo_def)
  have "missing_ids [1, 99, 7] (map c_id (categories db_exemplo)) = [7, 99]"
    by code_simp
  then have m: "sorted_list_of_set (set [1, 99, 7] - c_id ` set (categories db_exemplo)) = [7, 99]"
    by (simp only: missing_ids_eq set_map)
  have d: "''Categories not found: '' @ py_str_int_list [7, 99] = ''Categories not found: [7, 99]''"
    by code_simp
  show ?thesis
    using create_post_missing_categories [OF h1 h2, of 200] a t
    by (simp only: m d if_False if_True simp_thms prod_eq_iff fst_conv snd_conv)
qed

section \<open>Creating the same user twice\<close>

text \<open>
  C9, as stated: of two \<^verbatim>\<open>create_user\<close> requests with the same username and e-mail, the
  second fails with "Username is already in use.". The second row violates both unique
  indexes, the engine's error names one of them, and the handler looks for
  \<^verbatim>\<open>user.email\<close> in its text first: when the engine tests the e-mail index first, the
  failure is "Email is already in use.".
\<close>

theorem create_user_twice_email:
  "fst (create_user EmailFirst
          \<lparr>uc_username = ''a'', uc_email = ''x@x.com'', uc_full_name = None, uc_bio = None\<rparr>
          db_exemplo)
     = Inr \<lparr>u_id = 2, u_username = ''a'', u_email = ''x@x.com'', u_full_name = None,
            u_bio = None, u_created_at = None\<rparr>
   \<and> fst (create_user EmailFirst
            \<lparr>uc_username = ''a'', uc_email = ''x@x.com'', uc_full_name = None, uc_bio = None\<rparr>
            (snd (create_user EmailFirst
                    \<lparr>uc_username = ''a'', uc_email = ''x@x.com'', uc_full_name = None,
                     uc_bio = None\<rparr>
                    db_exemplo)))
       = Inl (HTTPException 400 ''Email is already in use.'')
   \<and> ''Email is already in use.'' \<noteq> ''Username is already in use.''"
  by code_simp

text \<open>
  C9, amended: when no stored user has the username or the e-mail of the request, the first
  of two identical \<^verbatim>\<open>create_user\<close> requests succeeds and the second fails with HTTP 400,
  never with the generic HTTP 500, and leaves the store as the first left it; its message
  is "Email is already in use." when the engine's error names the e-mail index and
  "Username is already in use." when it names the username index.
\<close>

theorem create_user_twice:
  assumes fresh: "\<not> list_ex (\<lambda>u. u_username u = uc_username user \<or> u_email u = uc_email user) (users s)"
  shows "fst (create_user ord user s)
           = Inr \<lparr>u_id = next_id (map u_id (users s)),
                  u_username = uc_username user, u_email = uc_email user,
                  u_full_name = uc_full_name user, u_bio = uc_bio user, u_created_at = None\<rparr>
       \<and> create_user ord user (snd (create_user ord user s))
           = (Inl (HTTPException 400
                     (case ord of
                        EmailFirst \<Rightarrow> ''Email is already in use.''
                      | UsernameFirst \<Rightarrow> ''Username is already in use.'')),
              snd (create_user ord user s))"
proof -
  define row where "row = \<lparr>u_id = next_id (map u_id (users s)),
                     u_username = uc_username user, u_email = uc_email user,
                     u_full_name = uc_full_name user, u_bio = uc_bio user,
                     u_created_at = None\<rparr>"
  have nv: "unique_violation ord (users s) (uc_username user) (uc_email user) = None"
    using fresh by (cases ord) (auto simp: unique_violation_def list_ex_iff)
  have first: "create_user ord user s = (Inr row, s\<lparr>users := users s @ [row]\<rparr>)"
    by (simp add: create_user_def insert_user_def nv row_def Let_def)
  have ve: "unique_violation EmailFirst (users s @ [row]) (uc_username user) (uc_email user)
              = Some ''UNIQUE constraint failed: user.email''"
    by (simp add: unique_violation_def row_def)
  have vu: "unique_violation UsernameFirst (users s @ [row]) (uc_username user) (uc_email user)
              = Some ''UNIQUE constraint failed: user.username''"
    by (simp add: unique_violation_def row_def)
  have second: "create_user ord user (s\<lparr>users := users s @ [row]\<rparr>)
                  = (Inl (HTTPException 400
                            (case ord of
                               EmailFirst \<Rightarrow> ''Email is already in use.''
                             | UsernameFirst \<Rightarrow> ''Username is already in use.'')),
                     s\<lparr>users := users s @ [row]\<rparr>)"
    by (cases ord)
      (simp_all add: create_user_def insert_user_def ve vu Let_def py_in_email_email
        py_in_email_username py_in_username_username)
  show ?thesis
    by (simp add: first second) (simp add: row_def)
qed

theorem create_user_twice_witness:
  "fst (create_user UsernameFirst
          \<lparr>uc_username = ''a'', uc_email = ''x@x.com'', uc_full_name = None, uc_bio = None\<rparr>
          db_exemplo)
     = Inr \<lparr>u_id = 2, u_username = ''a'', u_email = ''x@x.com'', u_full_name = None,
            u_bio = None, u_created_at = None\<rparr>
   \<and> fst (create_user UsernameFirst
            \<lparr>uc_username = ''a'', uc_email = ''x@x.com'', uc_full_name = None, uc_bio = None\<rparr>
            (snd (create_user UsernameFirst
                    \<lparr>uc_username = ''a'', uc_email = ''x@x.com'', uc_full_name = None,
                     uc_bio = None\<rparr>
                    db_exemplo)))
       = Inl (HTTPException 400 ''Username is already in use.'')"
proof -
  let ?u = "\<lparr>uc_username = ''a'', uc_email = ''x@x.com'', uc_full_name = None, uc_bio = None\<rparr>"
  have h: "\<not> list_ex (\<lambda>u. u_username u = uc_username ?u \<or> u_email u = uc_email ?u)
               (users db_exemplo)"
    by (simp add: db_exemplo_def)
  have n: "next_id (map u_id (users db_exemplo)) = 2"
    by (simp add: next_id_def db_exemplo_def)
  show ?thesis
    using create_user_twice [OF h, of UsernameFirst] by (simp add: n)
qed

end
